theory Spec2Isabelle
  imports Complex_Main
begin

section \<open>Numbers with a not-a-number value\<close>

text \<open>
  The source computes on floating-point numbers in which a missing value is NaN.  A
  number is modelled as \<open>real option\<close>: \<open>None\<close> is NaN, \<open>Some x\<close> is the
  number \<open>x\<close>, taken as an exact real (rounding and overflow of the 64-bit floats are
  not modelled).  Every comparison with NaN is false and arithmetic on NaN gives NaN,
  as in Python.
\<close>

type_synonym num = "real option"

fun nlt :: "num \<Rightarrow> num \<Rightarrow> bool" where
  "nlt (Some a) (Some b) = (a < b)"
| "nlt _ _ = False"

fun nle :: "num \<Rightarrow> num \<Rightarrow> bool" where
  "nle (Some a) (Some b) = (a \<le> b)"
| "nle _ _ = False"

definition ngt :: "num \<Rightarrow> num \<Rightarrow> bool" where
  "ngt a b = nlt b a"

definition nge :: "num \<Rightarrow> num \<Rightarrow> bool" where
  "nge a b = nle b a"

fun nadd :: "num \<Rightarrow> num \<Rightarrow> num" where
  "nadd (Some a) (Some b) = Some (a + b)"
| "nadd _ _ = None"

fun nsub :: "num \<Rightarrow> num \<Rightarrow> num" where
  "nsub (Some a) (Some b) = Some (a - b)"
| "nsub _ _ = None"

fun nmul :: "num \<Rightarrow> num \<Rightarrow> num" where
  "nmul (Some a) (Some b) = Some (a * b)"
| "nmul _ _ = None"

section \<open>The later variant: Enhanced\_technical\_strat.py\<close>

subsection \<open>Trade actions, position and per-bar data\<close>

datatype trade = LONG | SHORT | REVERSE_LONG | REVERSE_SHORT | CLOSE | HOLD

text \<open>The variable \<open>position\<close> is \<open>None\<close>, \<open>'LONG'\<close> or \<open>'SHORT'\<close>.\<close>

datatype side = PosLong | PosShort

text \<open>
  One row of the frame as the strategy loop reads it.  \<open>close\<close>, \<open>high\<close> and
  \<open>low\<close> are numbers, because rows with a missing required field were dropped before;
  every indicator may be NaN.
\<close>

record irow =
  close :: real
  high :: real
  low :: real
  ema_50 :: num
  ema_200 :: num
  vwap :: num
  bb_lower :: num
  bb_width :: num
  adx :: num
  plus_di :: num
  minus_di :: num
  rsi :: num
  atr :: num

text \<open>The parameters that \<open>run\<close> fixes as local constants.\<close>

record params =
  atr_mult_sl :: real
  atr_mult_tp :: real
  min_bb_width :: real
  adx_threshold :: real
  rsi_long_entry :: real
  rsi_short_entry :: real
  allow_reversals :: bool

definition default_params :: params where
  "default_params =
     \<lparr>atr_mult_sl = 2.5, atr_mult_tp = 3.0, min_bb_width = 0.015, adx_threshold = 28,
      rsi_long_entry = 55, rsi_short_entry = 45, allow_reversals = False\<rparr>"

text \<open>The loop's variables \<open>position, entry_price, tsl, sl, tp\<close>.\<close>

record pstate =
  position :: "side option"
  entry_price :: num
  tsl :: num
  sl :: num
  tp :: num

definition init_state :: pstate where
  "init_state = \<lparr>position = None, entry_price = None, tsl = None, sl = None, tp = None\<rparr>"

text \<open>What the loop writes into the columns \<open>trade_type, SL, TP, TSL\<close> of one row.\<close>

record decision =
  trade_type :: trade
  SL :: num
  TP :: num
  TSL :: num

definition default_decision :: decision where
  "default_decision = \<lparr>trade_type = HOLD, SL = None, TP = None, TSL = None\<rparr>"

subsection \<open>One iteration of the strategy loop\<close>

text \<open>\<open>row[essential_indicators].isnull().any()\<close>\<close>

definition essential_null :: "irow \<Rightarrow> bool" where
  "essential_null r =
     (ema_50 r = None \<or> ema_200 r = None \<or> vwap r = None \<or> bb_width r = None \<or>
      adx r = None \<or> plus_di r = None \<or> minus_di r = None \<or> rsi r = None \<or> atr r = None)"

text \<open>\<open>if atr == 0: atr = 0.0001\<close>\<close>

definition guard_atr :: "num \<Rightarrow> num" where
  "guard_atr a = (if a = Some 0 then Some 0.0001 else a)"

text \<open>
  The exit chains of the source only set \<open>exit_triggered\<close>; the model also names the
  branch of the \<open>if/elif\<close> chain that set it, so that the order of the tests can be
  stated.  \<open>exit_triggered\<close> is that a branch was taken.
\<close>

datatype exit_reason = TrailingStop | StopLoss | TakeProfit | TrendFlip

definition exit_long :: "pstate \<Rightarrow> irow \<Rightarrow> exit_reason option" where
  "exit_long s r =
     (if nle (Some (low r)) (tsl s) then Some TrailingStop
      else if nle (Some (low r)) (sl s) then Some StopLoss
      else if nge (Some (high r)) (tp s) then Some TakeProfit
      else if nlt (ema_50 r) (ema_200 r) then Some TrendFlip
      else None)"

definition exit_short :: "pstate \<Rightarrow> irow \<Rightarrow> exit_reason option" where
  "exit_short s r =
     (if nge (Some (high r)) (tsl s) then Some TrailingStop
      else if nge (Some (high r)) (sl s) then Some StopLoss
      else if nle (Some (low r)) (tp s) then Some TakeProfit
      else if ngt (ema_50 r) (ema_200 r) then Some TrendFlip
      else None)"

definition exit_branch :: "pstate \<Rightarrow> irow \<Rightarrow> exit_reason option" where
  "exit_branch s r =
     (case position s of
        Some PosLong \<Rightarrow> exit_long s r
      | Some PosShort \<Rightarrow> exit_short s r
      | None \<Rightarrow> None)"

definition exit_triggered :: "pstate \<Rightarrow> irow \<Rightarrow> bool" where
  "exit_triggered s r = (exit_branch s r \<noteq> None)"

text \<open>
  The update of \<open>tsl\<close> inside the exit blocks, run only when no exit was triggered:
  the candidate replaces \<open>tsl\<close> when \<open>tsl\<close> is NaN or the candidate is more favourable.
\<close>

definition ratchet :: "params \<Rightarrow> pstate \<Rightarrow> irow \<Rightarrow> num" where
  "ratchet p s r =
     (case position s of
        Some PosLong \<Rightarrow>
          (let potential_tsl = nsub (Some (close r)) (nmul (guard_atr (atr r)) (Some (atr_mult_sl p)))
           in if tsl s = None \<or> ngt potential_tsl (tsl s) then potential_tsl else tsl s)
      | Some PosShort \<Rightarrow>
          (let potential_tsl = nadd (Some (close r)) (nmul (guard_atr (atr r)) (Some (atr_mult_sl p)))
           in if tsl s = None \<or> nlt potential_tsl (tsl s) then potential_tsl else tsl s)
      | None \<Rightarrow> tsl s)"

definition long_signal :: "params \<Rightarrow> irow \<Rightarrow> bool" where
  "long_signal p r =
     (ngt (ema_50 r) (ema_200 r)
      \<and> ngt (Some (close r)) (vwap r)
      \<and> ngt (bb_width r) (Some (min_bb_width p))
      \<and> ngt (adx r) (Some (adx_threshold p))
      \<and> ngt (plus_di r) (minus_di r)
      \<and> nge (rsi r) (Some (rsi_long_entry p)))"

definition short_signal :: "params \<Rightarrow> irow \<Rightarrow> bool" where
  "short_signal p r =
     (nlt (ema_50 r) (ema_200 r)
      \<and> nlt (Some (close r)) (vwap r)
      \<and> ngt (bb_width r) (Some (min_bb_width p))
      \<and> ngt (adx r) (Some (adx_threshold p))
      \<and> ngt (minus_di r) (plus_di r)
      \<and> nle (rsi r) (Some (rsi_short_entry p)))"

text \<open>The assignments of an entry or a reversal into a long, and into a short, position.\<close>

definition open_long :: "params \<Rightarrow> irow \<Rightarrow> pstate" where
  "open_long p r =
     (let entry = Some (close r);
          stop = nsub entry (nmul (guard_atr (atr r)) (Some (atr_mult_sl p)))
      in \<lparr>position = Some PosLong, entry_price = entry, tsl = stop, sl = stop,
          tp = nadd entry (nmul (guard_atr (atr r)) (Some (atr_mult_tp p)))\<rparr>)"

definition open_short :: "params \<Rightarrow> irow \<Rightarrow> pstate" where
  "open_short p r =
     (let entry = Some (close r);
          stop = nadd entry (nmul (guard_atr (atr r)) (Some (atr_mult_sl p)))
      in \<lparr>position = Some PosShort, entry_price = entry, tsl = stop, sl = stop,
          tp = nsub entry (nmul (guard_atr (atr r)) (Some (atr_mult_tp p)))\<rparr>)"

text \<open>
  The block "Execute Trades": the action stamped (\<open>HOLD\<close> when no trade was executed on
  this bar) and the loop's variables afterwards.  \<open>s\<close> already holds the updated
  \<open>tsl\<close>.
\<close>

definition execute_trades :: "params \<Rightarrow> pstate \<Rightarrow> irow \<Rightarrow> trade \<times> pstate" where
  "execute_trades p s r =
     (if position s = None then
        (if long_signal p r then (LONG, open_long p r)
         else if short_signal p r then (SHORT, open_short p r)
         else (HOLD, s))
      else if allow_reversals p then
        (if position s = Some PosShort \<and> long_signal p r then (REVERSE_LONG, open_long p r)
         else if position s = Some PosLong \<and> short_signal p r then (REVERSE_SHORT, open_short p r)
         else (HOLD, s))
      else (HOLD, s))"

definition levels_of :: "trade \<Rightarrow> pstate \<Rightarrow> decision" where
  "levels_of t s = \<lparr>trade_type = t, SL = sl s, TP = tp s, TSL = tsl s\<rparr>"

text \<open>The body of the strategy loop for one row: the row's decision and the new state.\<close>

definition step :: "params \<Rightarrow> pstate \<Rightarrow> irow \<Rightarrow> decision \<times> pstate" where
  "step p s r =
     (if essential_null r then (levels_of HOLD s, s)
      else if exit_triggered s r then (levels_of CLOSE s, init_state)
      else
        (let s1 = s\<lparr>tsl := ratchet p s r\<rparr>;
             (t, s2) = execute_trades p s1 r
         in (levels_of t s2, s2)))"

text \<open>
  The loop over the rows, from a given state: for each row the state before, the decision
  written and the state after.
\<close>

fun trace :: "params \<Rightarrow> pstate \<Rightarrow> irow list \<Rightarrow> (pstate \<times> decision \<times> pstate) list" where
  "trace p s [] = []"
| "trace p s (r # rs) = (let (d, s') = step p s r in (s, d, s') # trace p s' rs)"

text \<open>
  \<open>first_valid_index\<close> is the first row in which \<open>ema_200, bb_lower, rsi, atr, adx\<close> are
  all present (the index of the frame is taken to be increasing).  The rows before it keep
  the default \<open>HOLD\<close> and NaN levels, the rows from it on are run through the loop.
\<close>

definition first_valid :: "irow \<Rightarrow> bool" where
  "first_valid r =
     (ema_200 r \<noteq> None \<and> bb_lower r \<noteq> None \<and> rsi r \<noteq> None \<and> atr r \<noteq> None \<and> adx r \<noteq> None)"

definition strategy_loop :: "params \<Rightarrow> irow list \<Rightarrow> decision list" where
  "strategy_loop p rs =
     map (\<lambda>r. default_decision) (takeWhile (\<lambda>r. \<not> first_valid r) rs)
     @ map (\<lambda>(s, d, s'). d) (trace p init_state (dropWhile (\<lambda>r. \<not> first_valid r) rs))"

text \<open>
  The invariant of the position: the entry price and the three levels are present exactly
  while a position is open.
\<close>

definition consistent :: "pstate \<Rightarrow> bool" where
  "consistent s =
     (case position s of
        None \<Rightarrow> entry_price s = None \<and> sl s = None \<and> tp s = None \<and> tsl s = None
      | Some sd \<Rightarrow> entry_price s \<noteq> None \<and> sl s \<noteq> None \<and> tp s \<noteq> None \<and> tsl s \<noteq> None)"

text \<open>
  What a row records, given the state before and after the bar: a \<open>CLOSE\<close> row holds
  the levels of the position just closed; any other row holds the levels of the state
  after the bar, which are NaN exactly when that state is flat.
\<close>

definition records_state :: "pstate \<times> decision \<times> pstate \<Rightarrow> bool" where
  "records_state x =
     (case x of (s, d, s') \<Rightarrow>
        if trade_type d = CLOSE then
          position s \<noteq> None \<and> position s' = None
          \<and> SL d = sl s \<and> TP d = tp s \<and> TSL d = tsl s
          \<and> SL d \<noteq> None \<and> TP d \<noteq> None \<and> TSL d \<noteq> None
        else
          SL d = sl s' \<and> TP d = tp s' \<and> TSL d = tsl s'
          \<and> (SL d = None \<longleftrightarrow> position s' = None)
          \<and> (TP d = None \<longleftrightarrow> position s' = None)
          \<and> (TSL d = None \<longleftrightarrow> position s' = None))"

subsection \<open>The frame and the entry point \<open>run\<close>\<close>

text \<open>
  A data frame: the column names in order, and the rows, each with one number (or NaN)
  per column.  Columns that hold no numbers (a timestamp) are not modelled, and the names
  are taken to stay distinct after normalisation.  The returned frame carries in
  addition, for each of its rows, the cells of the four columns \<open>trade_type, TP, SL, TSL\<close>
  that \<open>run\<close> assigns; the indicator columns that \<open>run\<close> also leaves in the frame
  are not part of the model's result.
\<close>

record frame =
  columns :: "string list"
  rows :: "num list list"

record result = frame +
  decisions :: "decision list"

datatype error = KeyError string | AttributeError | OtherError string

text \<open>\<open>data.empty\<close>: an axis of the frame has length zero.\<close>

definition frame_empty :: "frame \<Rightarrow> bool" where
  "frame_empty data = (columns data = [] \<or> rows data = [])"

text \<open>The assignments of \<open>HOLD\<close> and NaN to the four columns of every row.\<close>

definition all_hold :: "frame \<Rightarrow> result" where
  "all_hold df =
     \<lparr>columns = columns df, rows = rows df, decisions = map (\<lambda>r. default_decision) (rows df)\<rparr>"

text \<open>
  \<open>df.rename(columns={...})\<close> followed by \<open>col.lower()\<close> for every column; the
  lower-casing is that of the ASCII letters.
\<close>

definition rename_col :: "string \<Rightarrow> string" where
  "rename_col c =
     (if c = ''Datetime'' then ''datetime'' else if c = ''Open'' then ''open''
      else if c = ''High'' then ''high'' else if c = ''Low'' then ''low''
      else if c = ''Close'' then ''close'' else if c = ''Volume'' then ''volume'' else c)"

definition lower_char :: "char \<Rightarrow> char" where
  "lower_char c =
     (let n = (of_char c :: nat) in if 65 \<le> n \<and> n \<le> 90 then char_of (n + 32) else c)"

definition lower :: "string \<Rightarrow> string" where
  "lower c = map lower_char c"

text \<open>The copy of the frame with the normalised column names.\<close>

definition normalise :: "frame \<Rightarrow> frame" where
  "normalise data = data\<lparr>columns := map (\<lambda>c. lower (rename_col c)) (columns data)\<rparr>"

definition required_cols :: "string list" where
  "required_cols = [''open'', ''high'', ''low'', ''close'', ''volume'']"

text \<open>
  The loop over \<open>required_cols\<close> that raises \<open>KeyError\<close> for the first name that is
  not a column (the error carries the name, not the whole message).
\<close>

definition missing_col :: "string list \<Rightarrow> string option" where
  "missing_col cols = find (\<lambda>c. c \<notin> set cols) required_cols"

text \<open>A cell of a row by column name; a cell that the row does not have reads as NaN.\<close>

definition cell :: "string list \<Rightarrow> num list \<Rightarrow> string \<Rightarrow> num" where
  "cell cols r c = (case map_of (zip cols r) c of Some v \<Rightarrow> v | None \<Rightarrow> None)"

record bar =
  bar_open :: real
  bar_high :: real
  bar_low :: real
  bar_close :: real
  bar_volume :: real

text \<open>The five required cells of a row, when none of them is NaN.\<close>

definition bar_of :: "string list \<Rightarrow> num list \<Rightarrow> bar option" where
  "bar_of cols r =
     (case (cell cols r ''open'', cell cols r ''high'', cell cols r ''low'',
            cell cols r ''close'', cell cols r ''volume'') of
        (Some ope, Some hi, Some lo, Some clo, Some vol) \<Rightarrow>
          Some \<lparr>bar_open = ope, bar_high = hi, bar_low = lo, bar_close = clo, bar_volume = vol\<rparr>
      | _ \<Rightarrow> None)"

text \<open>\<open>df.dropna(subset=required_cols)\<close>\<close>

definition dropna :: "frame \<Rightarrow> frame" where
  "dropna df = df\<lparr>rows := filter (\<lambda>r. bar_of (columns df) r \<noteq> None) (rows df)\<rparr>"

definition bars_of :: "frame \<Rightarrow> bar list" where
  "bars_of df = List.map_filter (bar_of (columns df)) (rows df)"

text \<open>
  The columns that the calls into the library \<open>pandas_ta\<close> deliver (\<open>ema, bbands, rsi,
  atr, adx\<close>).  The library is not part of the repository: it is a parameter of the
  model, a function from the cleaned bars to either an exception or these columns.
\<close>

record ta_cols =
  ta_ema_50 :: "num list"
  ta_ema_200 :: "num list"
  ta_bbl :: "num list"
  ta_bbm :: "num list"
  ta_bbu :: "num list"
  ta_rsi :: "num list"
  ta_atr :: "num list"
  ta_adx :: "num list"
  ta_dmp :: "num list"
  ta_dmn :: "num list"

text \<open>A column read at a row; a row the column does not reach reads as NaN.\<close>

definition at_row :: "num list \<Rightarrow> nat \<Rightarrow> num" where
  "at_row xs i = (if i < length xs then xs ! i else None)"

text \<open>\<open>a / b.replace(0, np.nan)\<close>\<close>

fun div_replace0 :: "num \<Rightarrow> num \<Rightarrow> num" where
  "div_replace0 (Some a) (Some b) = (if b = 0 then None else Some (a / b))"
| "div_replace0 _ _ = None"

fun cumsum_from :: "real \<Rightarrow> real list \<Rightarrow> real list" where
  "cumsum_from acc [] = []"
| "cumsum_from acc (x # xs) = (acc + x) # cumsum_from (acc + x) xs"

definition cumsum :: "real list \<Rightarrow> real list" where
  "cumsum xs = cumsum_from 0 xs"

fun ffill_from :: "num \<Rightarrow> num list \<Rightarrow> num list" where
  "ffill_from lst [] = []"
| "ffill_from lst (None # xs) = lst # ffill_from lst xs"
| "ffill_from lst (Some v # xs) = Some v # ffill_from (Some v) xs"

definition ffill :: "num list \<Rightarrow> num list" where
  "ffill xs = ffill_from None xs"

text \<open>The column \<open>vwap\<close>: cumulative close times volume over cumulative volume, forward filled.\<close>

definition vwap_col :: "bar list \<Rightarrow> num list" where
  "vwap_col bs =
     ffill (map (\<lambda>(cvp, cv). div_replace0 (Some cvp) (Some cv))
              (zip (cumsum (map (\<lambda>b. bar_close b * bar_volume b) bs))
                   (cumsum (map bar_volume bs))))"

text \<open>The rows as the strategy loop reads them.\<close>

definition irows_of :: "bar list \<Rightarrow> ta_cols \<Rightarrow> irow list" where
  "irows_of bs t =
     map (\<lambda>(i, b).
            \<lparr>close = bar_close b, high = bar_high b, low = bar_low b,
             ema_50 = at_row (ta_ema_50 t) i, ema_200 = at_row (ta_ema_200 t) i,
             vwap = at_row (vwap_col bs) i,
             bb_lower = at_row (ta_bbl t) i,
             bb_width = div_replace0 (nsub (at_row (ta_bbu t) i) (at_row (ta_bbl t) i))
                          (at_row (ta_bbm t) i),
             adx = at_row (ta_adx t) i, plus_di = at_row (ta_dmp t) i,
             minus_di = at_row (ta_dmn t) i, rsi = at_row (ta_rsi t) i,
             atr = at_row (ta_atr t) i\<rparr>)
         (enumerate 0 bs)"

text \<open>
  \<open>Strategy.run\<close>.  The result is the exception that leaves \<open>run\<close>, or the frame it
  returns.  \<open>except Exception\<close> around the indicator block catches whatever the library
  raised.
\<close>

definition run_with :: "(bar list \<Rightarrow> error + ta_cols) \<Rightarrow> params \<Rightarrow> frame \<Rightarrow> error + result" where
  "run_with ta p data =
     (if frame_empty data then Inr (all_hold data)
      else
        (case missing_col (columns (normalise data)) of
           Some c \<Rightarrow> Inl (KeyError c)
         | None \<Rightarrow>
             (let df = dropna (normalise data)
              in if length (rows df) < 200 then Inr (all_hold df)
                 else
                   (case ta (bars_of df) of
                      Inl e \<Rightarrow> Inr (all_hold df)
                    | Inr t \<Rightarrow>
                        Inr \<lparr>columns = columns df, rows = rows df,
                             decisions = strategy_loop p (irows_of (bars_of df) t)\<rparr>))))"

definition run :: "(bar list \<Rightarrow> error + ta_cols) \<Rightarrow> frame \<Rightarrow> error + result" where
  "run ta data = run_with ta default_params data"

subsection \<open>Column labels that are not strings\<close>

text \<open>
  A column label of a frame need not be a string: a frame built from an array has the
  integers as labels.  \<open>run\<close> above is \<open>Strategy.run\<close> on the frames whose labels are
  all strings; \<open>run_any\<close> is \<open>Strategy.run\<close> on a frame with any labels.  The empty
  frame is returned as before.  Otherwise \<open>[col.lower() for col in df.columns]\<close>, which
  stands before the check of the required columns and outside the \<open>try\<close>, raises
  \<open>AttributeError\<close> at a label that is not a string; when every label is a string,
  \<open>run\<close> goes on as above.
\<close>

datatype label = Name string | Number int

record lframe =
  labels :: "label list"
  cells :: "num list list"

record lresult = lframe +
  stamps :: "decision list"

fun names :: "label list \<Rightarrow> string list option" where
  "names [] = Some []"
| "names (Name c # ls) = map_option ((#) c) (names ls)"
| "names (Number n # ls) = None"

definition run_any :: "(bar list \<Rightarrow> error + ta_cols) \<Rightarrow> lframe \<Rightarrow> error + lresult" where
  "run_any ta data =
     (if labels data = [] \<or> cells data = [] then
        Inr \<lparr>labels = labels data, cells = cells data,
             stamps = map (\<lambda>r. default_decision) (cells data)\<rparr>
      else
        (case names (labels data) of
           None \<Rightarrow> Inl AttributeError
         | Some cs \<Rightarrow>
             (case run ta \<lparr>columns = cs, rows = cells data\<rparr> of
                Inl e \<Rightarrow> Inl e
              | Inr res \<Rightarrow>
                  Inr \<lparr>labels = map Name (columns res), cells = rows res,
                       stamps = decisions res\<rparr>)))"

section \<open>The earlier variant: strategy.py\<close>

text \<open>
  One row as the loop of \<open>strategy.py\<close> reads it.  This variant drops no rows, so the
  close may be NaN as well.  The indicator columns are computed with pandas' rolling
  and exponentially weighted windows; the model takes them as given.
\<close>

record vrow =
  close_1 :: num
  atr_1 :: num
  bb_width_1 :: num
  rsi_1 :: num
  ema_50_1 :: num
  ema_200_1 :: num
  vwap_1 :: num

definition atr_mult :: real where
  "atr_mult = 1.5"

definition reward_ratio :: real where
  "reward_ratio = 2"

definition min_bb_width_1 :: real where
  "min_bb_width_1 = 0.01"

text \<open>
  The loop's variables \<open>position, tsl, sl\<close>.  Python's \<open>None\<close> in \<open>tsl\<close> is
  modelled as NaN: \<open>tsl\<close> is compared only behind a test of \<open>position\<close>, and is
  written into the frame as NaN.
\<close>

record vstate =
  position_1 :: "side option"
  tsl_1 :: num
  sl_1 :: num

definition init_state_1 :: vstate where
  "init_state_1 = \<lparr>position_1 = None, tsl_1 = None, sl_1 = None\<rparr>"

text \<open>Python's \<open>max(a, b)\<close> and \<open>min(a, b)\<close>: \<open>b\<close> only when it compares strictly beyond \<open>a\<close>.\<close>

definition pymax :: "num \<Rightarrow> num \<Rightarrow> num" where
  "pymax a b = (if ngt b a then b else a)"

definition pymin :: "num \<Rightarrow> num \<Rightarrow> num" where
  "pymin a b = (if nlt b a then b else a)"

definition long_signal_1 :: "vrow \<Rightarrow> bool" where
  "long_signal_1 r =
     (ngt (ema_50_1 r) (ema_200_1 r) \<and> ngt (close_1 r) (vwap_1 r)
      \<and> ngt (bb_width_1 r) (Some min_bb_width_1) \<and> nlt (rsi_1 r) (Some 70))"

definition short_signal_1 :: "vrow \<Rightarrow> bool" where
  "short_signal_1 r =
     (nlt (ema_50_1 r) (ema_200_1 r) \<and> nlt (close_1 r) (vwap_1 r)
      \<and> ngt (bb_width_1 r) (Some min_bb_width_1) \<and> ngt (rsi_1 r) (Some 30))"

definition enter_long_1 :: "trade \<Rightarrow> vrow \<Rightarrow> decision \<times> vstate" where
  "enter_long_1 t r =
     (let stop = nsub (close_1 r) (nmul (atr_1 r) (Some atr_mult))
      in (\<lparr>trade_type = t, SL = stop,
           TP = nadd (close_1 r) (nmul (nmul (atr_1 r) (Some atr_mult)) (Some reward_ratio)),
           TSL = stop\<rparr>,
          \<lparr>position_1 = Some PosLong, tsl_1 = stop, sl_1 = stop\<rparr>))"

definition enter_short_1 :: "trade \<Rightarrow> vrow \<Rightarrow> decision \<times> vstate" where
  "enter_short_1 t r =
     (let stop = nadd (close_1 r) (nmul (atr_1 r) (Some atr_mult))
      in (\<lparr>trade_type = t, SL = stop,
           TP = nsub (close_1 r) (nmul (nmul (atr_1 r) (Some atr_mult)) (Some reward_ratio)),
           TSL = stop\<rparr>,
          \<lparr>position_1 = Some PosShort, tsl_1 = stop, sl_1 = stop\<rparr>))"

text \<open>
  The body of the loop of \<open>strategy.py\<close> for one row.  A row closed by the trailing
  stop leaves the loop body by \<open>continue\<close>, before \<open>TSL\<close> is written.
\<close>

definition step_1 :: "vstate \<Rightarrow> vrow \<Rightarrow> decision \<times> vstate" where
  "step_1 s r =
     (let price = close_1 r in
      if position_1 s = Some PosLong \<and> nlt price (tsl_1 s) then
        (\<lparr>trade_type = CLOSE, SL = None, TP = None, TSL = None\<rparr>,
         s\<lparr>position_1 := None, tsl_1 := None\<rparr>)
      else if position_1 s = Some PosShort \<and> ngt price (tsl_1 s) then
        (\<lparr>trade_type = CLOSE, SL = None, TP = None, TSL = None\<rparr>,
         s\<lparr>position_1 := None, tsl_1 := None\<rparr>)
      else if long_signal_1 r then
        (if position_1 s = None then enter_long_1 LONG r
         else if position_1 s = Some PosShort then enter_long_1 REVERSE_LONG r
         else
           (let t = pymax (tsl_1 s) (nsub price (nmul (atr_1 r) (Some atr_mult)))
            in (\<lparr>trade_type = HOLD, SL = None, TP = None, TSL = t\<rparr>, s\<lparr>tsl_1 := t\<rparr>)))
      else if short_signal_1 r then
        (if position_1 s = None then enter_short_1 SHORT r
         else if position_1 s = Some PosLong then enter_short_1 REVERSE_SHORT r
         else
           (let t = pymin (tsl_1 s) (nadd price (nmul (atr_1 r) (Some atr_mult)))
            in (\<lparr>trade_type = HOLD, SL = None, TP = None, TSL = t\<rparr>, s\<lparr>tsl_1 := t\<rparr>)))
      else if position_1 s = Some PosLong
              \<and> (nlt price (ema_50_1 r) \<or> nlt price (vwap_1 r)) then
        (\<lparr>trade_type = CLOSE, SL = None, TP = None, TSL = None\<rparr>,
         s\<lparr>position_1 := None, tsl_1 := None\<rparr>)
      else if position_1 s = Some PosShort
              \<and> (ngt price (ema_50_1 r) \<or> ngt price (vwap_1 r)) then
        (\<lparr>trade_type = CLOSE, SL = None, TP = None, TSL = None\<rparr>,
         s\<lparr>position_1 := None, tsl_1 := None\<rparr>)
      else (\<lparr>trade_type = HOLD, SL = None, TP = None, TSL = tsl_1 s\<rparr>, s))"

fun trace_1 :: "vstate \<Rightarrow> vrow list \<Rightarrow> (vstate \<times> decision \<times> vstate) list" where
  "trace_1 s [] = []"
| "trace_1 s (r # rs) = (let (d, s') = step_1 s r in (s, d, s') # trace_1 s' rs)"

text \<open>\<open>for i in range(20, len(df))\<close>: the first twenty rows keep the defaults.\<close>

definition strategy_loop_1 :: "vrow list \<Rightarrow> decision list" where
  "strategy_loop_1 rs =
     map (\<lambda>r. default_decision) (take 20 rs)
     @ map (\<lambda>(s, d, s'). d) (trace_1 init_state_1 (drop 20 rs))"

text \<open>
  \<open>Strategy.run\<close> of \<open>strategy.py\<close>: the check of the required columns comes first, for
  every frame; \<open>ind\<close> stands for the indicator columns computed from the frame.
\<close>

definition run_1 :: "(frame \<Rightarrow> vrow list) \<Rightarrow> frame \<Rightarrow> error + result" where
  "run_1 ind data =
     (let cols = map lower (columns data)
      in case missing_col cols of
           Some c \<Rightarrow> Inl (KeyError c)
         | None \<Rightarrow>
             Inr \<lparr>columns = cols, rows = rows data,
                  decisions = strategy_loop_1 (ind \<lparr>columns = cols, rows = rows data\<rparr>)\<rparr>)"

section \<open>Properties\<close>

subsection \<open>Exit evaluation of the later variant\<close>

lemma exit_long_order:
  assumes "tsl s = Some t" "sl s = Some l" "tp s = Some g" "ema_50 r = Some e" "ema_200 r = Some f"
  shows "(exit_long s r = Some TrailingStop \<longleftrightarrow> low r \<le> t)
       \<and> (exit_long s r = Some StopLoss \<longleftrightarrow> t < low r \<and> low r \<le> l)
       \<and> (exit_long s r = Some TakeProfit \<longleftrightarrow> t < low r \<and> l < low r \<and> g \<le> high r)
       \<and> (exit_long s r = Some TrendFlip \<longleftrightarrow> t < low r \<and> l < low r \<and> high r < g \<and> e < f)
       \<and> (exit_long s r = None \<longleftrightarrow> t < low r \<and> l < low r \<and> high r < g \<and> f \<le> e)"
  using assms by (auto simp: exit_long_def nge_def ngt_def)

lemma exit_short_order:
  assumes "tsl s = Some t" "sl s = Some l" "tp s = Some g" "ema_50 r = Some e" "ema_200 r = Some f"
  shows "(exit_short s r = Some TrailingStop \<longleftrightarrow> t \<le> high r)
       \<and> (exit_short s r = Some StopLoss \<longleftrightarrow> high r < t \<and> l \<le> high r)
       \<and> (exit_short s r = Some TakeProfit \<longleftrightarrow> high r < t \<and> high r < l \<and> low r \<le> g)
       \<and> (exit_short s r = Some TrendFlip \<longleftrightarrow> high r < t \<and> high r < l \<and> g < low r \<and> f < e)
       \<and> (exit_short s r = None \<longleftrightarrow> high r < t \<and> high r < l \<and> g < low r \<and> e \<le> f)"
  using assms by (auto simp: exit_short_def nge_def ngt_def)

lemma step_exit:
  "\<not> essential_null r \<Longrightarrow> exit_triggered s r \<Longrightarrow>
     step p s r = (\<lparr>trade_type = CLOSE, SL = sl s, TP = tp s, TSL = tsl s\<rparr>, init_state)"
  by (simp add: step_def levels_of_def)

lemma execute_trades_not_close: "fst (execute_trades p s r) \<noteq> CLOSE"
  by (simp add: execute_trades_def)

lemma step_close_iff:
  "trade_type (fst (step p s r)) = CLOSE \<longleftrightarrow> \<not> essential_null r \<and> exit_triggered s r"
  using execute_trades_not_close[of p "s\<lparr>tsl := ratchet p s r\<rparr>" r]
  by (auto simp: step_def levels_of_def Let_def split: prod.splits)

text \<open>
  Claim C1, for the later variant.  On a bar whose essential indicators are all present,
  with a position open, the exit tests are taken in the order trailing stop, stop-loss,
  take-profit, EMA trend flip: the branch that sets \<open>exit_triggered\<close> is the trailing
  stop exactly when the bar's low (long) or high (short) has reached \<open>tsl\<close>; the
  stop-loss exactly when the trailing stop was not reached and the same extreme has
  reached \<open>sl\<close>; the take-profit exactly when neither stop was reached and the opposite
  extreme has reached \<open>tp\<close>; the trend flip exactly when none of the three was reached
  and the fast EMA is on the wrong side of the slow one.  Whenever a branch triggers, the
  row is stamped \<open>CLOSE\<close> with the levels held before the exit, the position and all
  levels are cleared, and this holds whatever the entry signals of the bar are: the entry
  logic is not reached.  When no branch triggers the row is not stamped \<open>CLOSE\<close>.
  The three levels are present whenever a position is open in a run of the loop (the
  invariant \<open>consistent\<close>, which every iteration keeps).
\<close>

theorem exit_priority_then_close:
  assumes "\<not> essential_null r" and "position s = Some sd"
    and "tsl s = Some t" and "sl s = Some l" and "tp s = Some g"
    and "ema_50 r = Some e" and "ema_200 r = Some f"
  shows
    "(sd = PosLong \<longrightarrow>
        (exit_branch s r = Some TrailingStop \<longleftrightarrow> low r \<le> t)
      \<and> (exit_branch s r = Some StopLoss \<longleftrightarrow> t < low r \<and> low r \<le> l)
      \<and> (exit_branch s r = Some TakeProfit \<longleftrightarrow> t < low r \<and> l < low r \<and> g \<le> high r)
      \<and> (exit_branch s r = Some TrendFlip \<longleftrightarrow> t < low r \<and> l < low r \<and> high r < g \<and> e < f))
   \<and> (sd = PosShort \<longrightarrow>
        (exit_branch s r = Some TrailingStop \<longleftrightarrow> t \<le> high r)
      \<and> (exit_branch s r = Some StopLoss \<longleftrightarrow> high r < t \<and> l \<le> high r)
      \<and> (exit_branch s r = Some TakeProfit \<longleftrightarrow> high r < t \<and> high r < l \<and> low r \<le> g)
      \<and> (exit_branch s r = Some TrendFlip \<longleftrightarrow> high r < t \<and> high r < l \<and> g < low r \<and> f < e))
   \<and> (exit_branch s r \<noteq> None \<longrightarrow>
        step p s r =
          (\<lparr>trade_type = CLOSE, SL = Some l, TP = Some g, TSL = Some t\<rparr>,
           \<lparr>position = None, entry_price = None, tsl = None, sl = None, tp = None\<rparr>))
   \<and> (exit_branch s r = None \<longrightarrow> trade_type (fst (step p s r)) \<noteq> CLOSE)"
proof -
  have long: "sd = PosLong \<Longrightarrow> exit_branch s r = exit_long s r"
    and short: "sd = PosShort \<Longrightarrow> exit_branch s r = exit_short s r"
    using assms(2) by (simp_all add: exit_branch_def)
  have closes: "exit_branch s r \<noteq> None \<Longrightarrow>
      step p s r =
        (\<lparr>trade_type = CLOSE, SL = Some l, TP = Some g, TSL = Some t\<rparr>,
         \<lparr>position = None, entry_price = None, tsl = None, sl = None, tp = None\<rparr>)"
    using step_exit[of r s p] assms by (simp add: exit_triggered_def init_state_def)
  have stays: "exit_branch s r = None \<Longrightarrow> trade_type (fst (step p s r)) \<noteq> CLOSE"
    by (simp add: step_close_iff exit_triggered_def)
  show ?thesis
    using exit_long_order[OF assms(3-7)] exit_short_order[OF assms(3-7)] long short closes stays
    by presburger
qed

theorem exit_priority_then_close_witness:
  "exit_branch \<lparr>position = Some PosLong, entry_price = Some 100, tsl = Some 97.5, sl = Some 97.5,
                 tp = Some 103\<rparr>
               \<lparr>close = 104, high = 105, low = 96, ema_50 = Some 101, ema_200 = Some 100,
                 vwap = Some 99, bb_lower = Some 95, bb_width = Some 0.05, adx = Some 30,
                 plus_di = Some 25, minus_di = Some 10, rsi = Some 60, atr = Some 1\<rparr>
     = Some TrailingStop
   \<and> long_signal default_params
               \<lparr>close = 104, high = 105, low = 96, ema_50 = Some 101, ema_200 = Some 100,
                 vwap = Some 99, bb_lower = Some 95, bb_width = Some 0.05, adx = Some 30,
                 plus_di = Some 25, minus_di = Some 10, rsi = Some 60, atr = Some 1\<rparr>
   \<and> step default_params
          \<lparr>position = Some PosLong, entry_price = Some 100, tsl = Some 97.5, sl = Some 97.5,
            tp = Some 103\<rparr>
          \<lparr>close = 104, high = 105, low = 96, ema_50 = Some 101, ema_200 = Some 100,
            vwap = Some 99, bb_lower = Some 95, bb_width = Some 0.05, adx = Some 30,
            plus_di = Some 25, minus_di = Some 10, rsi = Some 60, atr = Some 1\<rparr>
     = (\<lparr>trade_type = CLOSE, SL = Some 97.5, TP = Some 103, TSL = Some 97.5\<rparr>,
        \<lparr>position = None, entry_price = None, tsl = None, sl = None, tp = None\<rparr>)"
  using exit_priority_then_close
    [where p = default_params and sd = PosLong and t = "97.5" and l = "97.5" and g = 103
       and e = 101 and f = 100
       and s = "\<lparr>position = Some PosLong, entry_price = Some 100, tsl = Some 97.5,
                 sl = Some 97.5, tp = Some 103\<rparr>"
       and r = "\<lparr>close = 104, high = 105, low = 96, ema_50 = Some 101, ema_200 = Some 100,
                 vwap = Some 99, bb_lower = Some 95, bb_width = Some 0.05, adx = Some 30,
                 plus_di = Some 25, minus_di = Some 10, rsi = Some 60, atr = Some 1\<rparr>"]
  by (simp add: essential_null_def long_signal_def default_params_def ngt_def nge_def)

text \<open>
  The earlier variant \<open>strategy.py\<close> has another exit logic: it tests the close, not the
  bar's extremes, against the trailing stop, has no stop-loss or take-profit test, and
  closes a long position when the close is under the fast EMA or the VWAP and no entry
  signal fired.  Here a long position with trailing stop 95 is closed at a close of 100
  while the fast EMA is still above the slow one, and the row's levels stay NaN.
\<close>

theorem earlier_variant_exit_counterexample:
  "step_1 \<lparr>position_1 = Some PosLong, tsl_1 = Some 95, sl_1 = Some 95\<rparr>
          \<lparr>close_1 = Some 100, atr_1 = Some 2, bb_width_1 = Some 0.005, rsi_1 = Some 50,
            ema_50_1 = Some 101, ema_200_1 = Some 99, vwap_1 = Some 98\<rparr>
     = (\<lparr>trade_type = CLOSE, SL = None, TP = None, TSL = None\<rparr>,
        \<lparr>position_1 = None, tsl_1 = None, sl_1 = Some 95\<rparr>)"
  by (simp add: step_1_def long_signal_1_def short_signal_1_def ngt_def min_bb_width_1_def)

subsection \<open>An entry signal against the open position\<close>

lemma long_signal_flips_short:
  "long_signal p r \<Longrightarrow> position s = Some PosShort \<Longrightarrow> exit_triggered s r"
  by (simp add: long_signal_def exit_triggered_def exit_branch_def exit_short_def)

lemma short_signal_flips_long:
  "short_signal p r \<Longrightarrow> position s = Some PosLong \<Longrightarrow> exit_triggered s r"
  by (simp add: short_signal_def exit_triggered_def exit_branch_def exit_long_def)

lemma step_1_reverse_long:
  "position_1 s = Some PosShort \<Longrightarrow> \<not> ngt (close_1 r) (tsl_1 s) \<Longrightarrow> long_signal_1 r \<Longrightarrow>
     step_1 s r = enter_long_1 REVERSE_LONG r"
  by (simp add: step_1_def)

lemma step_1_reverse_short:
  "position_1 s = Some PosLong \<Longrightarrow> \<not> nlt (close_1 r) (tsl_1 s) \<Longrightarrow> \<not> long_signal_1 r \<Longrightarrow>
     short_signal_1 r \<Longrightarrow> step_1 s r = enter_short_1 REVERSE_SHORT r"
  by (simp add: step_1_def)

lemma step_1_enter_long:
  "position_1 s = None \<Longrightarrow> long_signal_1 r \<Longrightarrow> step_1 s r = enter_long_1 LONG r"
  by (simp add: step_1_def)

lemma step_1_enter_short:
  "position_1 s = None \<Longrightarrow> \<not> long_signal_1 r \<Longrightarrow> short_signal_1 r \<Longrightarrow>
     step_1 s r = enter_short_1 SHORT r"
  by (simp add: step_1_def)

lemma signals_exclusive_1: "long_signal_1 r \<Longrightarrow> \<not> short_signal_1 r"
  by (cases "ema_50_1 r"; cases "ema_200_1 r") (auto simp: long_signal_1_def short_signal_1_def ngt_def)

lemma signals_exclusive: "long_signal p r \<Longrightarrow> \<not> short_signal p r"
  by (cases "ema_50 r"; cases "ema_200 r") (auto simp: long_signal_def short_signal_def ngt_def)

text \<open>
  Claim C2, as amended.  In the later variant, with \<open>allow_reversals\<close> false (the value
  \<open>run\<close> fixes), a bar with all essential indicators present on which the entry signal
  opposite to the open position fires is closed by the exit logic: the signal requires
  the fast EMA on the side of the slow EMA that the trend-flip exit tests, so an exit branch
  triggers at the latest there.  The row is stamped \<open>CLOSE\<close> with the levels held before
  the exit and the position is cleared; it is neither held nor reversed.  In the earlier
  variant, which has no such option, the bar is stamped \<open>REVERSE_LONG\<close> (from short) or
  \<open>REVERSE_SHORT\<close> (from long) unless the close has crossed the trailing stop, and the
  position flips on that bar with the levels a fresh entry on the same bar gets.
\<close>

theorem opposite_signal_closes:
  assumes "\<not> allow_reversals p" and "\<not> essential_null r"
  shows
    "((position s = Some PosShort \<and> long_signal p r) \<or> (position s = Some PosLong \<and> short_signal p r) \<longrightarrow>
        step p s r =
          (\<lparr>trade_type = CLOSE, SL = sl s, TP = tp s, TSL = tsl s\<rparr>,
           \<lparr>position = None, entry_price = None, tsl = None, sl = None, tp = None\<rparr>))
   \<and> (position_1 s1 = Some PosShort \<and> long_signal_1 r1 \<and> \<not> ngt (close_1 r1) (tsl_1 s1) \<longrightarrow>
        trade_type (fst (step_1 s1 r1)) = REVERSE_LONG
      \<and> position_1 (snd (step_1 s1 r1)) = Some PosLong
      \<and> snd (step_1 s1 r1) = snd (step_1 init_state_1 r1)
      \<and> fst (step_1 s1 r1) = (fst (step_1 init_state_1 r1))\<lparr>trade_type := REVERSE_LONG\<rparr>)
   \<and> (position_1 s1 = Some PosLong \<and> short_signal_1 r1 \<and> \<not> nlt (close_1 r1) (tsl_1 s1) \<longrightarrow>
        trade_type (fst (step_1 s1 r1)) = REVERSE_SHORT
      \<and> position_1 (snd (step_1 s1 r1)) = Some PosShort
      \<and> snd (step_1 s1 r1) = snd (step_1 init_state_1 r1)
      \<and> fst (step_1 s1 r1) = (fst (step_1 init_state_1 r1))\<lparr>trade_type := REVERSE_SHORT\<rparr>)"
proof -
  have a: "(position s = Some PosShort \<and> long_signal p r) \<or> (position s = Some PosLong \<and> short_signal p r)
      \<Longrightarrow> step p s r =
          (\<lparr>trade_type = CLOSE, SL = sl s, TP = tp s, TSL = tsl s\<rparr>,
           \<lparr>position = None, entry_price = None, tsl = None, sl = None, tp = None\<rparr>)"
    using assms(2) long_signal_flips_short[of p r s] short_signal_flips_long[of p r s]
    by (auto simp: step_def levels_of_def init_state_def)
  have b: "position_1 s1 = Some PosShort \<and> long_signal_1 r1 \<and> \<not> ngt (close_1 r1) (tsl_1 s1) \<Longrightarrow>
        trade_type (fst (step_1 s1 r1)) = REVERSE_LONG
      \<and> position_1 (snd (step_1 s1 r1)) = Some PosLong
      \<and> snd (step_1 s1 r1) = snd (step_1 init_state_1 r1)
      \<and> fst (step_1 s1 r1) = (fst (step_1 init_state_1 r1))\<lparr>trade_type := REVERSE_LONG\<rparr>"
    by (simp add: step_1_reverse_long step_1_enter_long init_state_1_def enter_long_1_def Let_def)
  have c: "position_1 s1 = Some PosLong \<and> short_signal_1 r1 \<and> \<not> nlt (close_1 r1) (tsl_1 s1) \<Longrightarrow>
        trade_type (fst (step_1 s1 r1)) = REVERSE_SHORT
      \<and> position_1 (snd (step_1 s1 r1)) = Some PosShort
      \<and> snd (step_1 s1 r1) = snd (step_1 init_state_1 r1)
      \<and> fst (step_1 s1 r1) = (fst (step_1 init_state_1 r1))\<lparr>trade_type := REVERSE_SHORT\<rparr>"
  proof -
    assume h: "position_1 s1 = Some PosLong \<and> short_signal_1 r1 \<and> \<not> nlt (close_1 r1) (tsl_1 s1)"
    then have nl: "\<not> long_signal_1 r1"
      using signals_exclusive_1[of r1] by blast
    have r: "step_1 s1 r1 = enter_short_1 REVERSE_SHORT r1"
      using step_1_reverse_short[of s1 r1] h nl by simp
    have e: "step_1 init_state_1 r1 = enter_short_1 SHORT r1"
      using step_1_enter_short[of init_state_1 r1] h nl by (simp add: init_state_1_def)
    show ?thesis
      by (simp add: r e enter_short_1_def Let_def)
  qed
  from a b c show ?thesis by blast
qed

theorem opposite_signal_closes_witness:
  "step default_params
     \<lparr>position = Some PosLong, entry_price = Some 100, tsl = Some 97.5, sl = Some 97.5,
       tp = Some 103\<rparr>
     \<lparr>close = 99, high = 100, low = 98.5, ema_50 = Some 100, ema_200 = Some 101,
       vwap = Some 101, bb_lower = Some 95, bb_width = Some 0.05, adx = Some 30,
       plus_di = Some 10, minus_di = Some 25, rsi = Some 40, atr = Some 1\<rparr>
     = (\<lparr>trade_type = CLOSE, SL = Some 97.5, TP = Some 103, TSL = Some 97.5\<rparr>,
        \<lparr>position = None, entry_price = None, tsl = None, sl = None, tp = None\<rparr>)
   \<and> fst (step_1 \<lparr>position_1 = Some PosShort, tsl_1 = Some 105, sl_1 = Some 105\<rparr>
              \<lparr>close_1 = Some 100, atr_1 = Some 2, bb_width_1 = Some 0.05, rsi_1 = Some 50,
                ema_50_1 = Some 99, ema_200_1 = Some 98, vwap_1 = Some 97\<rparr>)
     = \<lparr>trade_type = REVERSE_LONG, SL = Some 97, TP = Some 106, TSL = Some 97\<rparr>"
  using opposite_signal_closes
    [where p = default_params
       and s = "\<lparr>position = Some PosLong, entry_price = Some 100, tsl = Some 97.5,
                 sl = Some 97.5, tp = Some 103\<rparr>"
       and r = "\<lparr>close = 99, high = 100, low = 98.5, ema_50 = Some 100, ema_200 = Some 101,
                 vwap = Some 101, bb_lower = Some 95, bb_width = Some 0.05, adx = Some 30,
                 plus_di = Some 10, minus_di = Some 25, rsi = Some 40, atr = Some 1\<rparr>"
       and ?s1.0 = "\<lparr>position_1 = Some PosShort, tsl_1 = Some 105, sl_1 = Some 105\<rparr>"
       and ?r1.0 = "\<lparr>close_1 = Some 100, atr_1 = Some 2, bb_width_1 = Some 0.05,
                    rsi_1 = Some 50, ema_50_1 = Some 99, ema_200_1 = Some 98,
                    vwap_1 = Some 97\<rparr>"]
  by (simp add: default_params_def essential_null_def short_signal_def long_signal_1_def
      ngt_def nge_def min_bb_width_1_def step_1_enter_long init_state_1_def enter_long_1_def
      atr_mult_def reward_ratio_def Let_def)

text \<open>
  With the parameters of \<open>run\<close>, a short position and a bar on which the long signal fires
  while no stop or target is reached: the row is \<open>CLOSE\<close> and the position is cleared,
  not \<open>HOLD\<close> with the short position kept.
\<close>

theorem opposite_signal_counterexample:
  "\<not> allow_reversals default_params
   \<and> long_signal default_params
        \<lparr>close = 101, high = 101.5, low = 100, ema_50 = Some 101, ema_200 = Some 100,
          vwap = Some 99, bb_lower = Some 95, bb_width = Some 0.05, adx = Some 30,
          plus_di = Some 25, minus_di = Some 10, rsi = Some 60, atr = Some 1\<rparr>
   \<and> step default_params
        \<lparr>position = Some PosShort, entry_price = Some 100, tsl = Some 102.5, sl = Some 102.5,
          tp = Some 97\<rparr>
        \<lparr>close = 101, high = 101.5, low = 100, ema_50 = Some 101, ema_200 = Some 100,
          vwap = Some 99, bb_lower = Some 95, bb_width = Some 0.05, adx = Some 30,
          plus_di = Some 25, minus_di = Some 10, rsi = Some 60, atr = Some 1\<rparr>
     = (\<lparr>trade_type = CLOSE, SL = Some 102.5, TP = Some 97, TSL = Some 102.5\<rparr>,
        \<lparr>position = None, entry_price = None, tsl = None, sl = None, tp = None\<rparr>)"
  by (simp add: step_def essential_null_def exit_triggered_def exit_branch_def exit_short_def
      long_signal_def default_params_def ngt_def nge_def levels_of_def init_state_def)

subsection \<open>Steps from the flat state\<close>

lemma guard_atr_Some:
  "guard_atr (Some a0) = Some (if a0 = 0 then 0.0001 else a0)"
  by (simp add: guard_atr_def)

lemma long_signal_not_null: "long_signal p r \<Longrightarrow> atr r \<noteq> None \<Longrightarrow> \<not> essential_null r"
  by (cases "ema_50 r"; cases "ema_200 r"; cases "vwap r"; cases "bb_width r"; cases "adx r";
      cases "plus_di r"; cases "minus_di r"; cases "rsi r")
     (simp_all add: long_signal_def essential_null_def ngt_def nge_def)

lemma short_signal_not_null: "short_signal p r \<Longrightarrow> atr r \<noteq> None \<Longrightarrow> \<not> essential_null r"
  by (cases "ema_50 r"; cases "ema_200 r"; cases "vwap r"; cases "bb_width r"; cases "adx r";
      cases "plus_di r"; cases "minus_di r"; cases "rsi r")
     (simp_all add: short_signal_def essential_null_def ngt_def nge_def)

lemma step_flat:
  "position s = None \<Longrightarrow> \<not> essential_null r \<Longrightarrow>
     step p s r =
       (if long_signal p r then (levels_of LONG (open_long p r), open_long p r)
        else if short_signal p r then (levels_of SHORT (open_short p r), open_short p r)
        else (levels_of HOLD s, s))"
  by (cases s)
     (simp add: step_def exit_triggered_def exit_branch_def ratchet_def execute_trades_def)

lemma open_long_Some:
  "atr r = Some a0 \<Longrightarrow> a = (if a0 = 0 then 0.0001 else a0) \<Longrightarrow>
     open_long p r =
       \<lparr>position = Some PosLong, entry_price = Some (close r),
        tsl = Some (close r - a * atr_mult_sl p), sl = Some (close r - a * atr_mult_sl p),
        tp = Some (close r + a * atr_mult_tp p)\<rparr>"
  by (simp add: open_long_def guard_atr_Some Let_def)

lemma open_short_Some:
  "atr r = Some a0 \<Longrightarrow> a = (if a0 = 0 then 0.0001 else a0) \<Longrightarrow>
     open_short p r =
       \<lparr>position = Some PosShort, entry_price = Some (close r),
        tsl = Some (close r + a * atr_mult_sl p), sl = Some (close r + a * atr_mult_sl p),
        tp = Some (close r - a * atr_mult_tp p)\<rparr>"
  by (simp add: open_short_def guard_atr_Some Let_def)

subsection \<open>A bar whose ATR is zero\<close>

lemma guard_atr_nonzero: "guard_atr a \<noteq> Some 0"
  by (simp add: guard_atr_def)

lemma step_in_position:
  assumes "position s \<noteq> None" and "\<not> essential_null r" and "\<not> exit_triggered s r"
  shows "step p s r = (levels_of HOLD (s\<lparr>tsl := ratchet p s r\<rparr>), s\<lparr>tsl := ratchet p s r\<rparr>)"
proof -
  have "\<not> (position s = Some PosShort \<and> long_signal p r)"
    using long_signal_flips_short assms(3) by blast
  moreover have "\<not> (position s = Some PosLong \<and> short_signal p r)"
    using short_signal_flips_long assms(3) by blast
  ultimately have "execute_trades p (s\<lparr>tsl := ratchet p s r\<rparr>) r = (HOLD, s\<lparr>tsl := ratchet p s r\<rparr>)"
    using assms(1) by (auto simp: execute_trades_def)
  then show ?thesis
    using assms(2,3) by (simp add: step_def)
qed

lemma ratchet_long:
  "position s = Some PosLong \<Longrightarrow> tsl s = Some t \<Longrightarrow> atr r = Some a0 \<Longrightarrow>
     ratchet p s r = Some (max t (close r - (if a0 = 0 then 0.0001 else a0) * atr_mult_sl p))"
  by (auto simp: ratchet_def guard_atr_def Let_def ngt_def max_def)

lemma ratchet_short:
  "position s = Some PosShort \<Longrightarrow> tsl s = Some t \<Longrightarrow> atr r = Some a0 \<Longrightarrow>
     ratchet p s r = Some (min t (close r + (if a0 = 0 then 0.0001 else a0) * atr_mult_sl p))"
  by (auto simp: ratchet_def guard_atr_def Let_def ngt_def min_def)

text \<open>
  Claim C9, as amended.  In the later variant, on every bar whose ATR is exactly zero
  (and whose essential indicators are present) the value 0.0001 is used in its place as
  the stop and target distance.  An entry on such a bar sets the stop-loss and the
  trailing stop to the entry price minus (long) or plus (short) 0.0001 times
  \<open>atr_mult_sl\<close> and the take-profit to the entry price plus or minus 0.0001 times
  \<open>atr_mult_tp\<close>.  A bar that keeps a long position open sets the trailing stop to the
  greater of its old level and the close minus 0.0001 times \<open>atr_mult_sl\<close>, and one
  that keeps a short position open to the lesser of its old level and the close plus that
  distance.  These are the expressions of the code, read over exact reals; the code
  evaluates them in floating point, and nothing is said here on whether the rounded levels
  differ from the price they are taken from.
\<close>

theorem zero_atr_guard:
  assumes "atr r = Some 0" and "\<not> essential_null r"
  shows
    "guard_atr (atr r) = Some 0.0001
   \<and> (position s = None \<and> long_signal p r \<longrightarrow>
        step p s r =
          (\<lparr>trade_type = LONG, SL = Some (close r - 0.0001 * atr_mult_sl p),
             TP = Some (close r + 0.0001 * atr_mult_tp p),
             TSL = Some (close r - 0.0001 * atr_mult_sl p)\<rparr>,
           \<lparr>position = Some PosLong, entry_price = Some (close r),
             tsl = Some (close r - 0.0001 * atr_mult_sl p),
             sl = Some (close r - 0.0001 * atr_mult_sl p),
             tp = Some (close r + 0.0001 * atr_mult_tp p)\<rparr>))
   \<and> (position s = None \<and> short_signal p r \<longrightarrow>
        step p s r =
          (\<lparr>trade_type = SHORT, SL = Some (close r + 0.0001 * atr_mult_sl p),
             TP = Some (close r - 0.0001 * atr_mult_tp p),
             TSL = Some (close r + 0.0001 * atr_mult_sl p)\<rparr>,
           \<lparr>position = Some PosShort, entry_price = Some (close r),
             tsl = Some (close r + 0.0001 * atr_mult_sl p),
             sl = Some (close r + 0.0001 * atr_mult_sl p),
             tp = Some (close r - 0.0001 * atr_mult_tp p)\<rparr>))
   \<and> (position s = Some PosLong \<and> tsl s = Some t \<and> \<not> exit_triggered s r \<longrightarrow>
        step p s r =
          (\<lparr>trade_type = HOLD, SL = sl s, TP = tp s,
             TSL = Some (max t (close r - 0.0001 * atr_mult_sl p))\<rparr>,
           s\<lparr>tsl := Some (max t (close r - 0.0001 * atr_mult_sl p))\<rparr>))
   \<and> (position s = Some PosShort \<and> tsl s = Some t \<and> \<not> exit_triggered s r \<longrightarrow>
        step p s r =
          (\<lparr>trade_type = HOLD, SL = sl s, TP = tp s,
             TSL = Some (min t (close r + 0.0001 * atr_mult_sl p))\<rparr>,
           s\<lparr>tsl := Some (min t (close r + 0.0001 * atr_mult_sl p))\<rparr>))"
proof (intro conjI impI)
  show "guard_atr (atr r) = Some 0.0001"
    using assms(1) by (simp add: guard_atr_def)
next
  assume h: "position s = None \<and> long_signal p r"
  have ol: "open_long p r =
       \<lparr>position = Some PosLong, entry_price = Some (close r),
        tsl = Some (close r - 0.0001 * atr_mult_sl p), sl = Some (close r - 0.0001 * atr_mult_sl p),
        tp = Some (close r + 0.0001 * atr_mult_tp p)\<rparr>"
    using open_long_Some[OF assms(1), of "0.0001" p] by simp
  show "step p s r =
          (\<lparr>trade_type = LONG, SL = Some (close r - 0.0001 * atr_mult_sl p),
             TP = Some (close r + 0.0001 * atr_mult_tp p),
             TSL = Some (close r - 0.0001 * atr_mult_sl p)\<rparr>,
           \<lparr>position = Some PosLong, entry_price = Some (close r),
             tsl = Some (close r - 0.0001 * atr_mult_sl p),
             sl = Some (close r - 0.0001 * atr_mult_sl p),
             tp = Some (close r + 0.0001 * atr_mult_tp p)\<rparr>)"
    using h assms(2) by (simp add: step_flat ol levels_of_def)
next
  assume h: "position s = None \<and> short_signal p r"
  then have nl: "\<not> long_signal p r"
    using signals_exclusive by blast
  have os: "open_short p r =
       \<lparr>position = Some PosShort, entry_price = Some (close r),
        tsl = Some (close r + 0.0001 * atr_mult_sl p), sl = Some (close r + 0.0001 * atr_mult_sl p),
        tp = Some (close r - 0.0001 * atr_mult_tp p)\<rparr>"
    using open_short_Some[OF assms(1), of "0.0001" p] by simp
  show "step p s r =
          (\<lparr>trade_type = SHORT, SL = Some (close r + 0.0001 * atr_mult_sl p),
             TP = Some (close r - 0.0001 * atr_mult_tp p),
             TSL = Some (close r + 0.0001 * atr_mult_sl p)\<rparr>,
           \<lparr>position = Some PosShort, entry_price = Some (close r),
             tsl = Some (close r + 0.0001 * atr_mult_sl p),
             sl = Some (close r + 0.0001 * atr_mult_sl p),
             tp = Some (close r - 0.0001 * atr_mult_tp p)\<rparr>)"
    using h nl assms(2) by (simp add: step_flat os levels_of_def)
next
  assume h: "position s = Some PosLong \<and> tsl s = Some t \<and> \<not> exit_triggered s r"
  then have st: "step p s r =
      (levels_of HOLD (s\<lparr>tsl := ratchet p s r\<rparr>), s\<lparr>tsl := ratchet p s r\<rparr>)"
    using assms(2) by (simp add: step_in_position)
  have "ratchet p s r = Some (max t (close r - 0.0001 * atr_mult_sl p))"
    using ratchet_long[of s t r 0 p] h assms(1) by simp
  then show "step p s r =
          (\<lparr>trade_type = HOLD, SL = sl s, TP = tp s,
             TSL = Some (max t (close r - 0.0001 * atr_mult_sl p))\<rparr>,
           s\<lparr>tsl := Some (max t (close r - 0.0001 * atr_mult_sl p))\<rparr>)"
    by (simp add: st levels_of_def)
next
  assume h: "position s = Some PosShort \<and> tsl s = Some t \<and> \<not> exit_triggered s r"
  then have st: "step p s r =
      (levels_of HOLD (s\<lparr>tsl := ratchet p s r\<rparr>), s\<lparr>tsl := ratchet p s r\<rparr>)"
    using assms(2) by (simp add: step_in_position)
  have "ratchet p s r = Some (min t (close r + 0.0001 * atr_mult_sl p))"
    using ratchet_short[of s t r 0 p] h assms(1) by simp
  then show "step p s r =
          (\<lparr>trade_type = HOLD, SL = sl s, TP = tp s,
             TSL = Some (min t (close r + 0.0001 * atr_mult_sl p))\<rparr>,
           s\<lparr>tsl := Some (min t (close r + 0.0001 * atr_mult_sl p))\<rparr>)"
    by (simp add: st levels_of_def)
qed

theorem zero_atr_guard_witness:
  "step default_params init_state
     \<lparr>close = 100, high = 100, low = 100, ema_50 = Some 101, ema_200 = Some 100,
       vwap = Some 99, bb_lower = Some 95, bb_width = Some 0.05, adx = Some 30,
       plus_di = Some 25, minus_di = Some 10, rsi = Some 60, atr = Some 0\<rparr>
     = (\<lparr>trade_type = LONG, SL = Some 99.99975, TP = Some 100.0003, TSL = Some 99.99975\<rparr>,
        \<lparr>position = Some PosLong, entry_price = Some 100, tsl = Some 99.99975,
          sl = Some 99.99975, tp = Some 100.0003\<rparr>)
   \<and> step default_params
        \<lparr>position = Some PosShort, entry_price = Some 100, tsl = Some 102.5, sl = Some 102.5,
          tp = Some 97\<rparr>
        \<lparr>close = 99, high = 99, low = 99, ema_50 = Some 99, ema_200 = Some 100,
          vwap = Some 101, bb_lower = Some 95, bb_width = Some 0.05, adx = Some 30,
          plus_di = Some 10, minus_di = Some 25, rsi = Some 40, atr = Some 0\<rparr>
     = (\<lparr>trade_type = HOLD, SL = Some 102.5, TP = Some 97, TSL = Some 99.00025\<rparr>,
        \<lparr>position = Some PosShort, entry_price = Some 100, tsl = Some 99.00025,
          sl = Some 102.5, tp = Some 97\<rparr>)"
  using zero_atr_guard
    [where p = default_params and s = init_state
       and r = "\<lparr>close = 100, high = 100, low = 100, ema_50 = Some 101, ema_200 = Some 100,
                 vwap = Some 99, bb_lower = Some 95, bb_width = Some 0.05, adx = Some 30,
                 plus_di = Some 25, minus_di = Some 10, rsi = Some 60, atr = Some 0\<rparr>"]
    zero_atr_guard
    [where p = default_params and t = "102.5"
       and s = "\<lparr>position = Some PosShort, entry_price = Some 100, tsl = Some 102.5,
                 sl = Some 102.5, tp = Some 97\<rparr>"
       and r = "\<lparr>close = 99, high = 99, low = 99, ema_50 = Some 99, ema_200 = Some 100,
                 vwap = Some 101, bb_lower = Some 95, bb_width = Some 0.05, adx = Some 30,
                 plus_di = Some 10, minus_di = Some 25, rsi = Some 40, atr = Some 0\<rparr>"]
  by (simp add: init_state_def default_params_def long_signal_def essential_null_def
      exit_triggered_def exit_branch_def exit_short_def ngt_def nge_def)

text \<open>
  Two facts against the claim as it was stated.  The earlier variant has no such
  substitution: an entry on a bar whose ATR is zero gets a stop-loss, a take-profit and a
  trailing stop equal to the close, the entry price.  And in the later variant a
  trailing-stop update on a bar whose ATR is zero can put the trailing stop on the entry
  price: after an entry at 100, a bar closing at 100.00025 moves it to 100.
\<close>

theorem zero_width_stop_counterexample:
  "step_1 init_state_1
     \<lparr>close_1 = Some 100, atr_1 = Some 0, bb_width_1 = Some 0.05, rsi_1 = Some 50,
       ema_50_1 = Some 99, ema_200_1 = Some 98, vwap_1 = Some 97\<rparr>
     = (\<lparr>trade_type = LONG, SL = Some 100, TP = Some 100, TSL = Some 100\<rparr>,
        \<lparr>position_1 = Some PosLong, tsl_1 = Some 100, sl_1 = Some 100\<rparr>)
   \<and> map (\<lambda>(s, d, s'). (trade_type d, TSL d, entry_price s'))
       (trace default_params init_state
          [\<lparr>close = 100, high = 101, low = 99, ema_50 = Some 101, ema_200 = Some 100,
             vwap = Some 99, bb_lower = Some 95, bb_width = Some 0.05, adx = Some 30,
             plus_di = Some 25, minus_di = Some 10, rsi = Some 60, atr = Some 1\<rparr>,
           \<lparr>close = 100.00025, high = 100.5, low = 99.9, ema_50 = Some 101,
             ema_200 = Some 100, vwap = Some 99, bb_lower = Some 95, bb_width = Some 0.05,
             adx = Some 30, plus_di = Some 25, minus_di = Some 10, rsi = Some 60,
             atr = Some 0\<rparr>])
     = [(LONG, Some 97.5, Some 100), (HOLD, Some 100, Some 100)]"
  by (simp add: step_1_def init_state_1_def long_signal_1_def ngt_def min_bb_width_1_def
      enter_long_1_def atr_mult_def reward_ratio_def Let_def
      default_params_def init_state_def step_def essential_null_def exit_triggered_def
      exit_branch_def exit_long_def ratchet_def guard_atr_def execute_trades_def
      long_signal_def open_long_def levels_of_def nge_def)

subsection \<open>The trailing stop only moves in the position's favour\<close>

lemma nle_trans: "nle a b \<Longrightarrow> nle b c \<Longrightarrow> nle a c"
  by (cases a; cases b; cases c) simp_all

lemma nge_trans: "nge a b \<Longrightarrow> nge b c \<Longrightarrow> nge a c"
  unfolding nge_def using nle_trans by blast

lemma sorted_wrt_nle_Cons:
  "nle a b \<Longrightarrow> sorted_wrt nle (b # xs) \<Longrightarrow> sorted_wrt nle (a # b # xs)"
  using nle_trans by auto

lemma sorted_wrt_nge_Cons:
  "nge a b \<Longrightarrow> sorted_wrt nge (b # xs) \<Longrightarrow> sorted_wrt nge (a # b # xs)"
  using nge_trans by auto

lemma step_long_ratchet:
  assumes "position s = Some PosLong" and "tsl s = Some t"
    and "position (snd (step p s r)) = Some PosLong"
  shows "\<exists>t'. tsl (snd (step p s r)) = Some t' \<and> TSL (fst (step p s r)) = Some t' \<and> t \<le> t'"
proof (cases "essential_null r")
  case True
  then show ?thesis
    using assms by (simp add: step_def levels_of_def)
next
  case False
  then have ne: "\<not> exit_triggered s r"
    using assms(3) by (auto simp: step_def init_state_def)
  then have st: "step p s r = (levels_of HOLD (s\<lparr>tsl := ratchet p s r\<rparr>), s\<lparr>tsl := ratchet p s r\<rparr>)"
    using False assms(1) by (simp add: step_in_position)
  from False obtain a where a: "atr r = Some a"
    by (auto simp: essential_null_def)
  show ?thesis
    using assms(1,2) a
    by (auto simp: st levels_of_def ratchet_def guard_atr_def Let_def ngt_def)
qed

lemma step_short_ratchet:
  assumes "position s = Some PosShort" and "tsl s = Some t"
    and "position (snd (step p s r)) = Some PosShort"
  shows "\<exists>t'. tsl (snd (step p s r)) = Some t' \<and> TSL (fst (step p s r)) = Some t' \<and> t' \<le> t"
proof (cases "essential_null r")
  case True
  then show ?thesis
    using assms by (simp add: step_def levels_of_def)
next
  case False
  then have ne: "\<not> exit_triggered s r"
    using assms(3) by (auto simp: step_def init_state_def)
  then have st: "step p s r = (levels_of HOLD (s\<lparr>tsl := ratchet p s r\<rparr>), s\<lparr>tsl := ratchet p s r\<rparr>)"
    using False assms(1) by (simp add: step_in_position)
  from False obtain a where a: "atr r = Some a"
    by (auto simp: essential_null_def)
  show ?thesis
    using assms(1,2) a
    by (auto simp: st levels_of_def ratchet_def guard_atr_def Let_def ngt_def)
qed

lemma step_1_long_ratchet:
  assumes "position_1 s = Some PosLong" and "tsl_1 s = Some t"
    and "position_1 (snd (step_1 s r)) = Some PosLong"
  shows "\<exists>t'. tsl_1 (snd (step_1 s r)) = Some t' \<and> TSL (fst (step_1 s r)) = Some t' \<and> t \<le> t'"
  using assms
  by (cases "nsub (close_1 r) (nmul (atr_1 r) (Some atr_mult))")
     (auto simp: step_1_def Let_def enter_short_1_def pymax_def ngt_def split: if_splits)

lemma step_1_short_ratchet:
  assumes "position_1 s = Some PosShort" and "tsl_1 s = Some t"
    and "position_1 (snd (step_1 s r)) = Some PosShort"
  shows "\<exists>t'. tsl_1 (snd (step_1 s r)) = Some t' \<and> TSL (fst (step_1 s r)) = Some t' \<and> t' \<le> t"
  using assms
  by (cases "nadd (close_1 r) (nmul (atr_1 r) (Some atr_mult))")
     (auto simp: step_1_def Let_def enter_long_1_def pymin_def ngt_def split: if_splits)

lemma trace_long_sorted:
  "position s = Some PosLong \<Longrightarrow> tsl s = Some t \<Longrightarrow>
   list_all (\<lambda>(s0, d, s'). position s' = Some PosLong) (trace p s rs) \<Longrightarrow>
     sorted_wrt nle (Some t # map (\<lambda>(s0, d, s'). TSL d) (trace p s rs))
   \<and> list_all (\<lambda>(s0, d, s'). TSL d = tsl s') (trace p s rs)"
proof (induction rs arbitrary: s t)
  case Nil
  then show ?case by simp
next
  case (Cons r rs)
  obtain d s' where st: "step p s r = (d, s')"
    by (cases "step p s r")
  from Cons.prems(3) st have pos: "position s' = Some PosLong"
    and rest: "list_all (\<lambda>(s0, d, s'). position s' = Some PosLong) (trace p s' rs)"
    by simp_all
  from step_long_ratchet[of s t p r] Cons.prems(1,2) pos st
  obtain t' where t': "tsl s' = Some t'" "TSL d = Some t'" "t \<le> t'"
    by auto
  have ih: "sorted_wrt nle (Some t' # map (\<lambda>(s0, d, s'). TSL d) (trace p s' rs))
      \<and> list_all (\<lambda>(s0, d, s'). TSL d = tsl s') (trace p s' rs)"
    using Cons.IH[OF pos t'(1) rest] .
  then have "sorted_wrt nle (Some t # Some t' # map (\<lambda>(s0, d, s'). TSL d) (trace p s' rs))"
    using t'(3) by (intro sorted_wrt_nle_Cons) simp_all
  then show ?case
    using st t' ih by simp
qed

lemma trace_short_sorted:
  "position s = Some PosShort \<Longrightarrow> tsl s = Some t \<Longrightarrow>
   list_all (\<lambda>(s0, d, s'). position s' = Some PosShort) (trace p s rs) \<Longrightarrow>
     sorted_wrt nge (Some t # map (\<lambda>(s0, d, s'). TSL d) (trace p s rs))
   \<and> list_all (\<lambda>(s0, d, s'). TSL d = tsl s') (trace p s rs)"
proof (induction rs arbitrary: s t)
  case Nil
  then show ?case by simp
next
  case (Cons r rs)
  obtain d s' where st: "step p s r = (d, s')"
    by (cases "step p s r")
  from Cons.prems(3) st have pos: "position s' = Some PosShort"
    and rest: "list_all (\<lambda>(s0, d, s'). position s' = Some PosShort) (trace p s' rs)"
    by simp_all
  from step_short_ratchet[of s t p r] Cons.prems(1,2) pos st
  obtain t' where t': "tsl s' = Some t'" "TSL d = Some t'" "t' \<le> t"
    by auto
  have ih: "sorted_wrt nge (Some t' # map (\<lambda>(s0, d, s'). TSL d) (trace p s' rs))
      \<and> list_all (\<lambda>(s0, d, s'). TSL d = tsl s') (trace p s' rs)"
    using Cons.IH[OF pos t'(1) rest] .
  then have "sorted_wrt nge (Some t # Some t' # map (\<lambda>(s0, d, s'). TSL d) (trace p s' rs))"
    using t'(3) by (intro sorted_wrt_nge_Cons) (simp_all add: nge_def)
  then show ?case
    using st t' ih by simp
qed

lemma trace_1_long_sorted:
  "position_1 s = Some PosLong \<Longrightarrow> tsl_1 s = Some t \<Longrightarrow>
   list_all (\<lambda>(s0, d, s'). position_1 s' = Some PosLong) (trace_1 s rs) \<Longrightarrow>
     sorted_wrt nle (Some t # map (\<lambda>(s0, d, s'). TSL d) (trace_1 s rs))
   \<and> list_all (\<lambda>(s0, d, s'). TSL d = tsl_1 s') (trace_1 s rs)"
proof (induction rs arbitrary: s t)
  case Nil
  then show ?case by simp
next
  case (Cons r rs)
  obtain d s' where st: "step_1 s r = (d, s')"
    by (cases "step_1 s r")
  from Cons.prems(3) st have pos: "position_1 s' = Some PosLong"
    and rest: "list_all (\<lambda>(s0, d, s'). position_1 s' = Some PosLong) (trace_1 s' rs)"
    by simp_all
  from step_1_long_ratchet[of s t r] Cons.prems(1,2) pos st
  obtain t' where t': "tsl_1 s' = Some t'" "TSL d = Some t'" "t \<le> t'"
    by auto
  have ih: "sorted_wrt nle (Some t' # map (\<lambda>(s0, d, s'). TSL d) (trace_1 s' rs))
      \<and> list_all (\<lambda>(s0, d, s'). TSL d = tsl_1 s') (trace_1 s' rs)"
    using Cons.IH[OF pos t'(1) rest] .
  then have "sorted_wrt nle (Some t # Some t' # map (\<lambda>(s0, d, s'). TSL d) (trace_1 s' rs))"
    using t'(3) by (intro sorted_wrt_nle_Cons) simp_all
  then show ?case
    using st t' ih by simp
qed

lemma trace_1_short_sorted:
  "position_1 s = Some PosShort \<Longrightarrow> tsl_1 s = Some t \<Longrightarrow>
   list_all (\<lambda>(s0, d, s'). position_1 s' = Some PosShort) (trace_1 s rs) \<Longrightarrow>
     sorted_wrt nge (Some t # map (\<lambda>(s0, d, s'). TSL d) (trace_1 s rs))
   \<and> list_all (\<lambda>(s0, d, s'). TSL d = tsl_1 s') (trace_1 s rs)"
proof (induction rs arbitrary: s t)
  case Nil
  then show ?case by simp
next
  case (Cons r rs)
  obtain d s' where st: "step_1 s r = (d, s')"
    by (cases "step_1 s r")
  from Cons.prems(3) st have pos: "position_1 s' = Some PosShort"
    and rest: "list_all (\<lambda>(s0, d, s'). position_1 s' = Some PosShort) (trace_1 s' rs)"
    by simp_all
  from step_1_short_ratchet[of s t r] Cons.prems(1,2) pos st
  obtain t' where t': "tsl_1 s' = Some t'" "TSL d = Some t'" "t' \<le> t"
    by auto
  have ih: "sorted_wrt nge (Some t' # map (\<lambda>(s0, d, s'). TSL d) (trace_1 s' rs))
      \<and> list_all (\<lambda>(s0, d, s'). TSL d = tsl_1 s') (trace_1 s' rs)"
    using Cons.IH[OF pos t'(1) rest] .
  then have "sorted_wrt nge (Some t # Some t' # map (\<lambda>(s0, d, s'). TSL d) (trace_1 s' rs))"
    using t'(3) by (intro sorted_wrt_nge_Cons) (simp_all add: nge_def)
  then show ?case
    using st t' ih by simp
qed

text \<open>
  Claim C3.  Take any run of consecutive bars that starts with a long position whose
  trailing stop is \<open>t\<close> and after each of which the position is still long (no exit and
  no reversal).  Then the \<open>TSL\<close> values recorded on these bars, with \<open>t\<close> in front, are
  non-decreasing, and each recorded value is the trailing stop the loop holds after that
  bar.  For a short position they are non-increasing.  This holds for the later variant
  (the first two parts) and for the earlier variant (the last two).
\<close>

theorem trailing_stop_monotonic:
  "(position s = Some PosLong \<and> tsl s = Some t
      \<and> list_all (\<lambda>(s0, d, s'). position s' = Some PosLong) (trace p s rs) \<longrightarrow>
        sorted_wrt nle (Some t # map (\<lambda>(s0, d, s'). TSL d) (trace p s rs))
      \<and> list_all (\<lambda>(s0, d, s'). TSL d = tsl s') (trace p s rs))
   \<and> (position q = Some PosShort \<and> tsl q = Some u
      \<and> list_all (\<lambda>(s0, d, s'). position s' = Some PosShort) (trace p q qs) \<longrightarrow>
        sorted_wrt nge (Some u # map (\<lambda>(s0, d, s'). TSL d) (trace p q qs))
      \<and> list_all (\<lambda>(s0, d, s'). TSL d = tsl s') (trace p q qs))
   \<and> (position_1 m = Some PosLong \<and> tsl_1 m = Some a
      \<and> list_all (\<lambda>(s0, d, s'). position_1 s' = Some PosLong) (trace_1 m ms) \<longrightarrow>
        sorted_wrt nle (Some a # map (\<lambda>(s0, d, s'). TSL d) (trace_1 m ms))
      \<and> list_all (\<lambda>(s0, d, s'). TSL d = tsl_1 s') (trace_1 m ms))
   \<and> (position_1 n = Some PosShort \<and> tsl_1 n = Some b
      \<and> list_all (\<lambda>(s0, d, s'). position_1 s' = Some PosShort) (trace_1 n ns) \<longrightarrow>
        sorted_wrt nge (Some b # map (\<lambda>(s0, d, s'). TSL d) (trace_1 n ns))
      \<and> list_all (\<lambda>(s0, d, s'). TSL d = tsl_1 s') (trace_1 n ns))"
  using trace_long_sorted[of s t p rs] trace_short_sorted[of q u p qs]
    trace_1_long_sorted[of m a ms] trace_1_short_sorted[of n b ns]
  by blast

theorem trailing_stop_monotonic_witness:
  "map (\<lambda>(s0, d, s'). TSL d)
     (trace default_params
        \<lparr>position = Some PosLong, entry_price = Some 100, tsl = Some 97.5, sl = Some 97.5,
          tp = Some 110\<rparr>
        [\<lparr>close = 104, high = 105, low = 99, ema_50 = Some 101, ema_200 = Some 100,
           vwap = Some 99, bb_lower = Some 95, bb_width = Some 0.05, adx = Some 30,
           plus_di = Some 25, minus_di = Some 10, rsi = Some 60, atr = Some 1\<rparr>,
         \<lparr>close = 103, high = 104, low = 102, ema_50 = Some 101, ema_200 = Some 100,
           vwap = Some 99, bb_lower = Some 95, bb_width = Some 0.05, adx = Some 30,
           plus_di = Some 25, minus_di = Some 10, rsi = Some 60, atr = Some 1\<rparr>])
     = [Some 101.5, Some 101.5]
   \<and> sorted_wrt nle [Some 97.5, Some 101.5, Some 101.5]
   \<and> map (\<lambda>(s0, d, s'). TSL d)
     (trace_1 \<lparr>position_1 = Some PosShort, tsl_1 = Some 105, sl_1 = Some 105\<rparr>
        [\<lparr>close_1 = Some 100, atr_1 = Some 2, bb_width_1 = Some 0.05, rsi_1 = Some 50,
           ema_50_1 = Some 101, ema_200_1 = Some 102, vwap_1 = Some 103\<rparr>,
         \<lparr>close_1 = Some 101, atr_1 = Some 2, bb_width_1 = Some 0.05, rsi_1 = Some 50,
           ema_50_1 = Some 101.5, ema_200_1 = Some 102, vwap_1 = Some 103\<rparr>])
     = [Some 103, Some 103]
   \<and> sorted_wrt nge [Some 105, Some 103, Some 103]"
  using trailing_stop_monotonic
    [where p = default_params and t = "97.5" and b = 105
       and s = "\<lparr>position = Some PosLong, entry_price = Some 100, tsl = Some 97.5,
                 sl = Some 97.5, tp = Some 110\<rparr>"
       and rs = "[\<lparr>close = 104, high = 105, low = 99, ema_50 = Some 101, ema_200 = Some 100,
                   vwap = Some 99, bb_lower = Some 95, bb_width = Some 0.05, adx = Some 30,
                   plus_di = Some 25, minus_di = Some 10, rsi = Some 60, atr = Some 1\<rparr>,
                 \<lparr>close = 103, high = 104, low = 102, ema_50 = Some 101, ema_200 = Some 100,
                   vwap = Some 99, bb_lower = Some 95, bb_width = Some 0.05, adx = Some 30,
                   plus_di = Some 25, minus_di = Some 10, rsi = Some 60, atr = Some 1\<rparr>]"
       and n = "\<lparr>position_1 = Some PosShort, tsl_1 = Some 105, sl_1 = Some 105\<rparr>"
       and ns = "[\<lparr>close_1 = Some 100, atr_1 = Some 2, bb_width_1 = Some 0.05,
                   rsi_1 = Some 50, ema_50_1 = Some 101, ema_200_1 = Some 102,
                   vwap_1 = Some 103\<rparr>,
                 \<lparr>close_1 = Some 101, atr_1 = Some 2, bb_width_1 = Some 0.05,
                   rsi_1 = Some 50, ema_50_1 = Some 101.5, ema_200_1 = Some 102,
                   vwap_1 = Some 103\<rparr>]"]
  by (simp add: default_params_def step_def essential_null_def exit_triggered_def
      exit_branch_def exit_long_def ratchet_def guard_atr_def execute_trades_def levels_of_def
      step_1_def long_signal_1_def short_signal_1_def pymin_def min_bb_width_1_def atr_mult_def
      ngt_def nge_def Let_def)

subsection \<open>What each row records\<close>

lemma consistent_init: "consistent init_state"
  by (simp add: consistent_def init_state_def)

lemma consistent_open_long: "atr r \<noteq> None \<Longrightarrow> consistent (open_long p r)"
  by (auto simp: consistent_def open_long_def guard_atr_def Let_def)

lemma consistent_open_short: "atr r \<noteq> None \<Longrightarrow> consistent (open_short p r)"
  by (auto simp: consistent_def open_short_def guard_atr_def Let_def)

lemma ratchet_defined:
  "position s \<noteq> None \<Longrightarrow> tsl s \<noteq> None \<Longrightarrow> atr r \<noteq> None \<Longrightarrow> ratchet p s r \<noteq> None"
  by (cases "position s"; cases "the (position s)")
     (auto simp: ratchet_def guard_atr_def Let_def)

lemma exit_triggered_open: "exit_triggered s r \<Longrightarrow> position s \<noteq> None"
  by (auto simp: exit_triggered_def exit_branch_def split: option.splits)

lemma step_records:
  assumes "consistent s"
  shows "consistent (snd (step p s r)) \<and> records_state (s, fst (step p s r), snd (step p s r))"
proof (cases "essential_null r")
  case True
  then show ?thesis
    using assms
    by (auto simp: step_def levels_of_def records_state_def consistent_def split: option.splits)
next
  case nn: False
  then have a: "atr r \<noteq> None"
    by (simp add: essential_null_def)
  show ?thesis
  proof (cases "exit_triggered s r")
    case True
    then have "position s \<noteq> None"
      by (rule exit_triggered_open)
    then show ?thesis
      using assms nn True
      by (auto simp: step_def levels_of_def records_state_def consistent_def init_state_def)
  next
    case ne: False
    show ?thesis
    proof (cases "position s")
      case None
      then show ?thesis
        using assms nn a consistent_open_long[of r p] consistent_open_short[of r p]
        by (auto simp: step_flat levels_of_def records_state_def consistent_def
            open_long_def open_short_def guard_atr_def Let_def)
    next
      case (Some sd)
      then have st: "step p s r =
          (levels_of HOLD (s\<lparr>tsl := ratchet p s r\<rparr>), s\<lparr>tsl := ratchet p s r\<rparr>)"
        using nn ne by (simp add: step_in_position)
      have "ratchet p s r \<noteq> None"
        using Some assms a by (intro ratchet_defined) (auto simp: consistent_def)
      then show ?thesis
        using assms Some
        by (auto simp: st levels_of_def records_state_def consistent_def)
    qed
  qed
qed

lemma trace_records:
  "consistent s \<Longrightarrow> list_all records_state (trace p s rs)"
proof (induction rs arbitrary: s)
  case Nil
  then show ?case by simp
next
  case (Cons r rs)
  obtain d s' where st: "step p s r = (d, s')"
    by (cases "step p s r")
  from step_records[OF Cons.prems, of p r] st
  have "consistent s'" and "records_state (s, d, s')"
    by simp_all
  then show ?case
    using st Cons.IH[of s'] by simp
qed

text \<open>
  Claim C8, for the later variant.  Along the loop started in the flat initial state, for
  every bar: a row stamped \<open>CLOSE\<close> records the levels held before the exit, which are
  all present, and leaves the position flat; every other row records the levels of the
  state after the bar, and each of \<open>SL, TP, TSL\<close> is NaN exactly when the position
  after the bar is flat.
\<close>

theorem levels_recorded_after_bar:
  "list_all
     (\<lambda>(s, d, s').
        if trade_type d = CLOSE then
          position s \<noteq> None \<and> position s' = None
          \<and> SL d = sl s \<and> TP d = tp s \<and> TSL d = tsl s
          \<and> SL d \<noteq> None \<and> TP d \<noteq> None \<and> TSL d \<noteq> None
        else
          SL d = sl s' \<and> TP d = tp s' \<and> TSL d = tsl s'
          \<and> (SL d = None \<longleftrightarrow> position s' = None)
          \<and> (TP d = None \<longleftrightarrow> position s' = None)
          \<and> (TSL d = None \<longleftrightarrow> position s' = None))
     (trace p init_state rs)"
proof -
  have "list_all records_state (trace p init_state rs)"
    using trace_records[OF consistent_init] .
  then show ?thesis
    by (rule list.pred_mono_strong) (auto simp: records_state_def)
qed

theorem levels_recorded_after_bar_witness:
  "map (\<lambda>(s, d, s'). (d, position s'))
     (trace default_params init_state
        [\<lparr>close = 100, high = 101, low = 99, ema_50 = Some 101, ema_200 = Some 100,
           vwap = Some 99, bb_lower = Some 95, bb_width = Some 0.05, adx = Some 30,
           plus_di = Some 25, minus_di = Some 10, rsi = Some 60, atr = Some 2\<rparr>,
         \<lparr>close = 104, high = 105, low = 99, ema_50 = Some 101, ema_200 = Some 100,
           vwap = Some 99, bb_lower = Some 95, bb_width = Some 0.05, adx = Some 30,
           plus_di = Some 25, minus_di = Some 10, rsi = Some 60, atr = Some 2\<rparr>,
         \<lparr>close = 100, high = 104, low = 98, ema_50 = Some 101, ema_200 = Some 100,
           vwap = Some 99, bb_lower = Some 95, bb_width = Some 0.05, adx = Some 30,
           plus_di = Some 25, minus_di = Some 10, rsi = Some 60, atr = Some 2\<rparr>])
     = [(\<lparr>trade_type = LONG, SL = Some 95, TP = Some 106, TSL = Some 95\<rparr>, Some PosLong),
        (\<lparr>trade_type = HOLD, SL = Some 95, TP = Some 106, TSL = Some 99\<rparr>, Some PosLong),
        (\<lparr>trade_type = CLOSE, SL = Some 95, TP = Some 106, TSL = Some 99\<rparr>, None)]"
  using levels_recorded_after_bar
    [where p = default_params
       and rs = "[\<lparr>close = 100, high = 101, low = 99, ema_50 = Some 101, ema_200 = Some 100,
                   vwap = Some 99, bb_lower = Some 95, bb_width = Some 0.05, adx = Some 30,
                   plus_di = Some 25, minus_di = Some 10, rsi = Some 60, atr = Some 2\<rparr>,
                 \<lparr>close = 104, high = 105, low = 99, ema_50 = Some 101, ema_200 = Some 100,
                   vwap = Some 99, bb_lower = Some 95, bb_width = Some 0.05, adx = Some 30,
                   plus_di = Some 25, minus_di = Some 10, rsi = Some 60, atr = Some 2\<rparr>,
                 \<lparr>close = 100, high = 104, low = 98, ema_50 = Some 101, ema_200 = Some 100,
                   vwap = Some 99, bb_lower = Some 95, bb_width = Some 0.05, adx = Some 30,
                   plus_di = Some 25, minus_di = Some 10, rsi = Some 60, atr = Some 2\<rparr>]"]
  by (simp add: default_params_def init_state_def step_def essential_null_def
      exit_triggered_def exit_branch_def exit_long_def ratchet_def guard_atr_def
      execute_trades_def long_signal_def open_long_def levels_of_def ngt_def nge_def Let_def)

text \<open>
  The earlier variant writes \<open>SL\<close> and \<open>TP\<close> only on the bar of an entry or a
  reversal: on the bar after a long entry, which keeps the position, the row's \<open>SL\<close>
  and \<open>TP\<close> are NaN although the position is long.
\<close>

theorem earlier_variant_levels_counterexample:
  "map (\<lambda>(s, d, s'). (d, position_1 s'))
     (trace_1 init_state_1
        [\<lparr>close_1 = Some 98, atr_1 = Some 2, bb_width_1 = Some 0.05, rsi_1 = Some 50,
           ema_50_1 = Some 97, ema_200_1 = Some 96, vwap_1 = Some 95\<rparr>,
         \<lparr>close_1 = Some 100, atr_1 = Some 2, bb_width_1 = Some 0.005, rsi_1 = Some 50,
           ema_50_1 = Some 99, ema_200_1 = Some 98, vwap_1 = Some 97\<rparr>])
     = [(\<lparr>trade_type = LONG, SL = Some 95, TP = Some 104, TSL = Some 95\<rparr>, Some PosLong),
        (\<lparr>trade_type = HOLD, SL = None, TP = None, TSL = Some 95\<rparr>, Some PosLong)]"
  by (simp add: init_state_1_def step_1_def long_signal_1_def short_signal_1_def
      enter_long_1_def min_bb_width_1_def atr_mult_def reward_ratio_def ngt_def Let_def)

subsection \<open>The entry point: empty frames, the schema check, short series and faults\<close>

lemma lower_column_names:
  "lower ''Open'' = ''open''" "lower ''High'' = ''high''" "lower ''Low'' = ''low''"
  "lower ''Close'' = ''close''" "lower ''Volume'' = ''volume''"
  "lower ''open'' = ''open''" "lower ''high'' = ''high''" "lower ''low'' = ''low''"
  "lower ''close'' = ''close''" "lower ''volume'' = ''volume''"
  by code_simp+

lemma missing_col_SomeD:
  "missing_col cols = Some c \<Longrightarrow> c \<in> set required_cols \<and> c \<notin> set cols"
  by (auto simp: missing_col_def find_Some_iff)

lemma missing_col_exists:
  "c \<in> set required_cols \<Longrightarrow> c \<notin> set cols \<Longrightarrow> \<exists>c'. missing_col cols = Some c'"
  by (cases "missing_col cols") (auto simp: missing_col_def find_None_iff)

lemma run_with_empty:
  "frame_empty data \<Longrightarrow> run_with ta p data = Inr (all_hold data)"
  by (simp add: run_with_def)

lemma run_with_missing:
  "\<not> frame_empty data \<Longrightarrow> missing_col (columns (normalise data)) = Some c \<Longrightarrow>
     run_with ta p data = Inl (KeyError c)"
  by (simp add: run_with_def)

lemma run_with_short:
  "\<not> frame_empty data \<Longrightarrow> missing_col (columns (normalise data)) = None \<Longrightarrow>
   length (rows (dropna (normalise data))) < 200 \<Longrightarrow>
     run_with ta p data = Inr (all_hold (dropna (normalise data)))"
  by (simp add: run_with_def)

lemma run_with_fault:
  "\<not> frame_empty data \<Longrightarrow> missing_col (columns (normalise data)) = None \<Longrightarrow>
   \<not> length (rows (dropna (normalise data))) < 200 \<Longrightarrow>
   ta (bars_of (dropna (normalise data))) = Inl e \<Longrightarrow>
     run_with ta p data = Inr (all_hold (dropna (normalise data)))"
  by (simp add: run_with_def)

lemma all_hold_decisions:
  "decisions (all_hold df) =
     replicate (length (rows df)) \<lparr>trade_type = HOLD, SL = None, TP = None, TSL = None\<rparr>"
  by (simp add: all_hold_def default_decision_def map_replicate_const)

text \<open>
  Claim C10.  For an empty frame (no column or no row) \<open>run\<close> of the later variant
  returns the frame with the four columns set to \<open>HOLD\<close> and NaN on every row (on no row
  at all when the frame has no rows) and raises nothing.  No hypothesis is made on the
  column names: the check of the required columns is not reached, so an empty frame
  without a \<open>volume\<close> column comes back without a missing-column error.
\<close>

theorem empty_frame_all_hold:
  "frame_empty data \<Longrightarrow>
     run ta data =
       Inr \<lparr>columns = columns data, rows = rows data,
            decisions =
              replicate (length (rows data))
                \<lparr>trade_type = HOLD, SL = None, TP = None, TSL = None\<rparr>\<rparr>"
  by (simp add: run_def run_with_empty all_hold_def default_decision_def map_replicate_const)

theorem empty_frame_all_hold_witness:
  "frame_empty \<lparr>columns = [''open'', ''high'', ''low'', ''close''], rows = []\<rparr>
   \<and> missing_col (columns (normalise \<lparr>columns = [''open'', ''high'', ''low'', ''close''], rows = []\<rparr>))
       = Some ''volume''
   \<and> run (\<lambda>bs. Inl (OtherError ''unused''))
        \<lparr>columns = [''open'', ''high'', ''low'', ''close''], rows = []\<rparr>
     = Inr \<lparr>columns = [''open'', ''high'', ''low'', ''close''], rows = [], decisions = []\<rparr>"
proof -
  have e: "frame_empty \<lparr>columns = [''open'', ''high'', ''low'', ''close''], rows = []\<rparr>"
    by (simp add: frame_empty_def)
  have m: "missing_col (columns (normalise \<lparr>columns = [''open'', ''high'', ''low'', ''close''], rows = []\<rparr>))
       = Some ''volume''"
    by code_simp
  show ?thesis
    using e m empty_frame_all_hold[OF e, of "\<lambda>bs. Inl (OtherError ''unused'')"] by simp
qed

text \<open>
  Claim C5, as amended.  In the later variant, for every frame that is not empty and lacks
  one of the five required columns after the names were normalised, \<open>run\<close> raises
  \<open>KeyError\<close> for a required column that is missing, whatever the indicator library
  would do: no row is dropped and no indicator is computed before, and nothing is
  returned.  In the earlier variant the same holds for every frame, empty or not.
\<close>

theorem missing_column_error:
  "(\<not> frame_empty data \<and> c \<in> set required_cols \<and> c \<notin> set (columns (normalise data)) \<longrightarrow>
      (\<exists>c'. run ta data = Inl (KeyError c') \<and> c' \<in> set required_cols
            \<and> c' \<notin> set (columns (normalise data))))
   \<and> (c \<in> set required_cols \<and> c \<notin> set (map lower (columns data)) \<longrightarrow>
      (\<exists>c'. run_1 ind data = Inl (KeyError c') \<and> c' \<in> set required_cols
            \<and> c' \<notin> set (map lower (columns data))))"
proof (intro conjI impI)
  assume h: "\<not> frame_empty data \<and> c \<in> set required_cols \<and> c \<notin> set (columns (normalise data))"
  then obtain c' where c': "missing_col (columns (normalise data)) = Some c'"
    using missing_col_exists by blast
  then have "run ta data = Inl (KeyError c')"
    using h by (simp add: run_def run_with_missing)
  then show "\<exists>c'. run ta data = Inl (KeyError c') \<and> c' \<in> set required_cols
            \<and> c' \<notin> set (columns (normalise data))"
    using missing_col_SomeD[OF c'] by blast
next
  assume h: "c \<in> set required_cols \<and> c \<notin> set (map lower (columns data))"
  then obtain c' where c': "missing_col (map lower (columns data)) = Some c'"
    using missing_col_exists by blast
  then have "run_1 ind data = Inl (KeyError c')"
    by (simp add: run_1_def)
  then show "\<exists>c'. run_1 ind data = Inl (KeyError c') \<and> c' \<in> set required_cols
            \<and> c' \<notin> set (map lower (columns data))"
    using missing_col_SomeD[OF c'] by blast
qed

theorem missing_column_error_witness:
  "run (\<lambda>bs. Inl (OtherError ''unused''))
     \<lparr>columns = [''Open'', ''High'', ''Low'', ''Close''],
       rows = [[Some 3, Some 4, Some 2, Some 3]]\<rparr>
     = Inl (KeyError ''volume'')
   \<and> run_1 (\<lambda>f. [])
     \<lparr>columns = [''Open'', ''High'', ''Low'', ''Close''], rows = []\<rparr>
     = Inl (KeyError ''volume'')"
  using missing_column_error
    [where c = "''volume''" and ta = "\<lambda>bs. Inl (OtherError ''unused'')"
       and data = "\<lparr>columns = [''Open'', ''High'', ''Low'', ''Close''],
                    rows = [[Some 3, Some 4, Some 2, Some 3]]\<rparr>"]
  by (auto simp: normalise_def rename_col_def lower_column_names frame_empty_def
      required_cols_def run_1_def missing_col_def)

text \<open>
  The later variant returns an empty frame before the check: a frame with no rows and no
  \<open>volume\<close> column is returned, not refused.
\<close>

theorem empty_frame_schema_counterexample:
  "''volume'' \<notin> set (columns (normalise \<lparr>columns = [''Open'', ''High'', ''Low'', ''Close''], rows = []\<rparr>))
   \<and> run (\<lambda>bs. Inl (OtherError ''unused''))
        \<lparr>columns = [''Open'', ''High'', ''Low'', ''Close''], rows = []\<rparr>
     = Inr \<lparr>columns = [''Open'', ''High'', ''Low'', ''Close''], rows = [], decisions = []\<rparr>"
  by (simp add: normalise_def rename_col_def lower_column_names run_def run_with_def
      frame_empty_def all_hold_def)

lemma columns_dropna: "columns (dropna df) = columns df"
  by (simp add: dropna_def)

lemma all_hold_result:
  "all_hold df =
     \<lparr>columns = columns df, rows = rows df,
      decisions = replicate (length (rows df))
                    \<lparr>trade_type = HOLD, SL = None, TP = None, TSL = None\<rparr>\<rparr>"
  by (simp add: all_hold_def default_decision_def map_replicate_const)

lemma dropna_empty_columns: "columns data = [] \<Longrightarrow> rows (dropna (normalise data)) = []"
  by (simp add: dropna_def normalise_def bar_of_def cell_def)

text \<open>
  Claim C6, for the later variant.  When the frame is empty, or has the required columns,
  and fewer than 200 rows are left after the rows with a missing required field were
  dropped, \<open>run\<close> raises nothing and returns the cleaned frame (the frame itself when it
  is empty) with \<open>HOLD\<close> and NaN levels on every row.  The result does not depend on the
  indicator library: no indicator is computed.  The witness is a frame of 200 rows of
  which one has no close, so that exactly 199 are left.
\<close>

theorem short_series_all_hold:
  assumes "frame_empty data \<or> missing_col (columns (normalise data)) = None"
    and "length (rows (dropna (normalise data))) < 200"
  shows
    "\<exists>res. run ta data = Inr res
       \<and> rows res = (if frame_empty data then rows data else rows (dropna (normalise data)))
       \<and> decisions res =
           replicate (length (rows res)) \<lparr>trade_type = HOLD, SL = None, TP = None, TSL = None\<rparr>"
proof (cases "frame_empty data")
  case True
  then show ?thesis
    by (simp add: run_def run_with_empty all_hold_result)
next
  case False
  then have "run ta data = Inr (all_hold (dropna (normalise data)))"
    using assms by (simp add: run_def run_with_short)
  then show ?thesis
    using False by (simp add: all_hold_result)
qed

theorem short_series_all_hold_witness:
  "run (\<lambda>bs. Inl (OtherError ''unused''))
     \<lparr>columns = [''Open'', ''High'', ''Low'', ''Close'', ''Volume''],
       rows = [Some 3, Some 4, Some 2, None, Some 9]
              # replicate 199 [Some 3, Some 4, Some 2, Some 3, Some 9]\<rparr>
     = Inr \<lparr>columns = [''open'', ''high'', ''low'', ''close'', ''volume''],
            rows = replicate 199 [Some 3, Some 4, Some 2, Some 3, Some 9],
            decisions = replicate 199 \<lparr>trade_type = HOLD, SL = None, TP = None, TSL = None\<rparr>\<rparr>"
proof -
  let ?data = "\<lparr>columns = [''Open'', ''High'', ''Low'', ''Close'', ''Volume''],
       rows = [Some 3, Some 4, Some 2, None, Some 9]
              # replicate 199 [Some 3, Some 4, Some 2, Some 3, Some 9]\<rparr>"
  have c: "columns (normalise ?data) = [''open'', ''high'', ''low'', ''close'', ''volume'']"
    by (simp add: normalise_def rename_col_def lower_column_names)
  have r: "rows (dropna (normalise ?data)) = replicate 199 [Some 3, Some 4, Some 2, Some 3, Some 9]"
    by (simp add: dropna_def normalise_def rename_col_def lower_column_names bar_of_def cell_def)
  have m: "missing_col (columns (normalise ?data)) = None"
    unfolding c by (simp add: missing_col_def required_cols_def)
  have e: "\<not> frame_empty ?data"
    by (simp add: frame_empty_def)
  have run: "run (\<lambda>bs. Inl (OtherError ''unused'')) ?data = Inr (all_hold (dropna (normalise ?data)))"
    using e m r by (simp add: run_def run_with_short)
  show ?thesis
    using short_series_all_hold[of ?data "\<lambda>bs. Inl (OtherError ''unused'')"] m run c r
    by (simp add: all_hold_result columns_dropna)
qed

text \<open>
  The earlier variant has no such gate: it computes the indicators for a series of any
  length and runs its loop from the row of index 20.  On a series of 21 rows whose last row
  satisfies the long signal, that row is stamped \<open>LONG\<close> with levels.
\<close>

theorem earlier_variant_short_series_counterexample:
  "strategy_loop_1
     (replicate 20 \<lparr>close_1 = Some 98, atr_1 = Some 2, bb_width_1 = None, rsi_1 = Some 50,
                     ema_50_1 = Some 98, ema_200_1 = Some 98, vwap_1 = Some 98\<rparr>
      @ [\<lparr>close_1 = Some 100, atr_1 = Some 2, bb_width_1 = Some 0.05, rsi_1 = Some 50,
           ema_50_1 = Some 99, ema_200_1 = Some 98, vwap_1 = Some 97\<rparr>])
     = replicate 20 \<lparr>trade_type = HOLD, SL = None, TP = None, TSL = None\<rparr>
       @ [\<lparr>trade_type = LONG, SL = Some 97, TP = Some 106, TSL = Some 97\<rparr>]"
  by (simp add: strategy_loop_1_def map_replicate_const default_decision_def init_state_1_def
      step_1_def long_signal_1_def enter_long_1_def min_bb_width_1_def atr_mult_def
      reward_ratio_def ngt_def Let_def)

lemma names_Some_nonempty: "names ls = Some cs \<Longrightarrow> ls \<noteq> [] \<Longrightarrow> cs \<noteq> []"
  by (cases ls rule: names.cases) auto

lemma run_any_strings:
  assumes "labels data \<noteq> []" and "cells data \<noteq> []" and "names (labels data) = Some cs"
  shows "run_any ta data =
     (case run ta \<lparr>columns = cs, rows = cells data\<rparr> of
        Inl e \<Rightarrow> Inl e
      | Inr res \<Rightarrow> Inr \<lparr>labels = map Name (columns res), cells = rows res, stamps = decisions res\<rparr>)"
  using assms by (simp add: run_any_def)

text \<open>
  Claim C7, as amended.  When the indicator library raises on a frame that passed the
  checks (not empty, all labels strings, required columns present, at least 200 cleaned
  rows), \<open>run\<close> catches the exception and returns the cleaned frame with \<open>HOLD\<close> and
  NaN levels on every row.  What is raised outside the indicator block is not caught: on
  a frame that is not empty, a column label that is not a string makes the lower-casing of
  the labels raise \<open>AttributeError\<close>, which leaves \<open>run\<close>, as does the \<open>KeyError\<close>
  of a missing required column.  The theorem does not say that these are the only
  exceptions of \<open>run\<close>: the strategy loop is modelled for distinct, increasing index
  labels only.
\<close>

theorem indicator_fault_caught:
  "(labels data \<noteq> [] \<and> cells data \<noteq> [] \<and> names (labels data) = Some cs
      \<and> missing_col (columns (normalise \<lparr>columns = cs, rows = cells data\<rparr>)) = None
      \<and> 200 \<le> length (rows (dropna (normalise \<lparr>columns = cs, rows = cells data\<rparr>)))
      \<and> ta (bars_of (dropna (normalise \<lparr>columns = cs, rows = cells data\<rparr>))) = Inl e \<longrightarrow>
        run_any ta data =
          Inr \<lparr>labels = map Name (columns (normalise \<lparr>columns = cs, rows = cells data\<rparr>)),
               cells = rows (dropna (normalise \<lparr>columns = cs, rows = cells data\<rparr>)),
               stamps =
                 replicate (length (rows (dropna (normalise \<lparr>columns = cs, rows = cells data\<rparr>))))
                   \<lparr>trade_type = HOLD, SL = None, TP = None, TSL = None\<rparr>\<rparr>)
   \<and> (labels data \<noteq> [] \<and> cells data \<noteq> [] \<and> names (labels data) = None \<longrightarrow>
        run_any ta data = Inl AttributeError)
   \<and> (labels data \<noteq> [] \<and> cells data \<noteq> [] \<and> names (labels data) = Some cs
      \<and> missing_col (columns (normalise \<lparr>columns = cs, rows = cells data\<rparr>)) = Some c \<longrightarrow>
        run_any ta data = Inl (KeyError c))"
proof (intro conjI impI)
  let ?F = "\<lparr>columns = cs, rows = cells data\<rparr>"
  assume h: "labels data \<noteq> [] \<and> cells data \<noteq> [] \<and> names (labels data) = Some cs
      \<and> missing_col (columns (normalise ?F)) = None
      \<and> 200 \<le> length (rows (dropna (normalise ?F)))
      \<and> ta (bars_of (dropna (normalise ?F))) = Inl e"
  then have ne: "\<not> frame_empty ?F"
    using names_Some_nonempty[of "labels data" cs] by (simp add: frame_empty_def)
  have "run ta ?F = Inr (all_hold (dropna (normalise ?F)))"
    using h ne by (simp add: run_def run_with_fault)
  then show "run_any ta data =
          Inr \<lparr>labels = map Name (columns (normalise ?F)),
               cells = rows (dropna (normalise ?F)),
               stamps =
                 replicate (length (rows (dropna (normalise ?F))))
                   \<lparr>trade_type = HOLD, SL = None, TP = None, TSL = None\<rparr>\<rparr>"
    using h by (simp add: run_any_strings all_hold_result columns_dropna)
next
  assume "labels data \<noteq> [] \<and> cells data \<noteq> [] \<and> names (labels data) = None"
  then show "run_any ta data = Inl AttributeError"
    by (simp add: run_any_def)
next
  let ?F = "\<lparr>columns = cs, rows = cells data\<rparr>"
  assume h: "labels data \<noteq> [] \<and> cells data \<noteq> [] \<and> names (labels data) = Some cs
      \<and> missing_col (columns (normalise ?F)) = Some c"
  then have ne: "\<not> frame_empty ?F"
    using names_Some_nonempty[of "labels data" cs] by (simp add: frame_empty_def)
  have "run ta ?F = Inl (KeyError c)"
    using h ne by (simp add: run_def run_with_missing)
  then show "run_any ta data = Inl (KeyError c)"
    using h by (simp add: run_any_strings)
qed

theorem indicator_fault_caught_witness:
  "run_any (\<lambda>bs. Inl (OtherError ''library fault''))
     \<lparr>labels = [Name ''open'', Name ''high'', Name ''low'', Name ''close'', Name ''volume''],
       cells = replicate 200 [Some 3, Some 4, Some 2, Some 3, Some 9]\<rparr>
     = Inr \<lparr>labels = [Name ''open'', Name ''high'', Name ''low'', Name ''close'', Name ''volume''],
            cells = replicate 200 [Some 3, Some 4, Some 2, Some 3, Some 9],
            stamps = replicate 200 \<lparr>trade_type = HOLD, SL = None, TP = None, TSL = None\<rparr>\<rparr>
   \<and> run_any (\<lambda>bs. Inl (OtherError ''library fault''))
     \<lparr>labels = [Name ''open'', Name ''high'', Name ''low'', Name ''close'', Number 4],
       cells = [[Some 3, Some 4, Some 2, Some 3, Some 9]]\<rparr>
     = Inl AttributeError
   \<and> run_any (\<lambda>bs. Inl (OtherError ''library fault''))
     \<lparr>labels = [Name ''open'', Name ''high'', Name ''low'', Name ''close''],
       cells = [[Some 3, Some 4, Some 2, Some 3]]\<rparr>
     = Inl (KeyError ''volume'')"
  using indicator_fault_caught
    [where ta = "\<lambda>bs. Inl (OtherError ''library fault'')"
       and e = "OtherError ''library fault''"
       and cs = "[''open'', ''high'', ''low'', ''close'', ''volume'']"
       and data = "\<lparr>labels = [Name ''open'', Name ''high'', Name ''low'', Name ''close'',
                              Name ''volume''],
                    cells = replicate 200 [Some 3, Some 4, Some 2, Some 3, Some 9]\<rparr>"]
    indicator_fault_caught
    [where ta = "\<lambda>bs. Inl (OtherError ''library fault'')"
       and data = "\<lparr>labels = [Name ''open'', Name ''high'', Name ''low'', Name ''close'',
                              Number 4],
                    cells = [[Some 3, Some 4, Some 2, Some 3, Some 9]]\<rparr>"]
    indicator_fault_caught
    [where ta = "\<lambda>bs. Inl (OtherError ''library fault'')"
       and cs = "[''open'', ''high'', ''low'', ''close'']" and c = "''volume''"
       and data = "\<lparr>labels = [Name ''open'', Name ''high'', Name ''low'', Name ''close''],
                    cells = [[Some 3, Some 4, Some 2, Some 3]]\<rparr>"]
  by (simp add: normalise_def rename_col_def lower_column_names
      missing_col_def required_cols_def dropna_def bar_of_def cell_def)

text \<open>
  A frame of one row whose column labels are the integers 0 to 4: \<open>run\<close> raises
  \<open>AttributeError\<close>, which is not the error of the required-column check.
\<close>

theorem non_string_label_counterexample:
  "run_any (\<lambda>bs. Inl (OtherError ''unused''))
     \<lparr>labels = [Number 0, Number 1, Number 2, Number 3, Number 4],
       cells = [[Some 3, Some 4, Some 2, Some 3, Some 9]]\<rparr>
     = Inl AttributeError"
  by (simp add: run_any_def)

subsection \<open>Levels of a fresh entry\<close>

lemma execute_trades_long:
  "fst (execute_trades p s r) = LONG \<longleftrightarrow> position s = None \<and> long_signal p r"
  by (auto simp: execute_trades_def)

lemma execute_trades_short:
  "fst (execute_trades p s r) = SHORT \<longleftrightarrow> position s = None \<and> \<not> long_signal p r \<and> short_signal p r"
  by (auto simp: execute_trades_def)

lemma step_trade:
  "\<not> essential_null r \<Longrightarrow> \<not> exit_triggered s r \<Longrightarrow>
     trade_type (fst (step p s r)) = fst (execute_trades p (s\<lparr>tsl := ratchet p s r\<rparr>) r)"
  by (simp add: step_def levels_of_def Let_def split: prod.splits)

lemma step_long_iff:
  "trade_type (fst (step p s r)) = LONG \<longleftrightarrow>
     \<not> essential_null r \<and> position s = None \<and> long_signal p r"
proof (cases "essential_null r \<or> exit_triggered s r")
  case True
  then show ?thesis
    using exit_triggered_open[of s r] by (auto simp: step_def levels_of_def)
next
  case False
  then show ?thesis
    using exit_triggered_open[of s r] by (auto simp: step_trade execute_trades_long)
qed

lemma step_short_iff:
  "trade_type (fst (step p s r)) = SHORT \<longleftrightarrow>
     \<not> essential_null r \<and> position s = None \<and> short_signal p r"
proof (cases "essential_null r \<or> exit_triggered s r")
  case True
  then show ?thesis
    using exit_triggered_open[of s r] by (auto simp: step_def levels_of_def)
next
  case False
  then show ?thesis
    using exit_triggered_open[of s r] signals_exclusive[of p r]
    by (auto simp: step_trade execute_trades_short)
qed

lemma step_1_long_iff:
  "trade_type (fst (step_1 s r)) = LONG \<longleftrightarrow> position_1 s = None \<and> long_signal_1 r"
  by (auto simp: step_1_def Let_def enter_long_1_def enter_short_1_def)

lemma step_1_short_iff:
  "trade_type (fst (step_1 s r)) = SHORT \<longleftrightarrow> position_1 s = None \<and> short_signal_1 r"
  using signals_exclusive_1[of r]
  by (auto simp: step_1_def Let_def enter_long_1_def enter_short_1_def)

lemma essential_null_atr: "atr r = None \<Longrightarrow> essential_null r"
  by (simp add: essential_null_def)

text \<open>
  Claim C4, as amended.  A row is stamped \<open>LONG\<close> (\<open>SHORT\<close>) exactly on a fresh
  entry: no position is open and the long (short) signal fires, in the later variant with
  the ATR present.  There the later variant opens the position with entry price equal to
  the bar's close, stop-loss equal to entry minus (long) or plus (short) ATR times
  \<open>atr_mult_sl\<close>, take-profit equal to entry plus (long) or minus (short) ATR times
  \<open>atr_mult_tp\<close>, a target multiplier of its own that is not multiplied by the stop
  multiplier, and the trailing stop equal to the stop-loss; ATR is the bar's ATR after a
  zero was replaced by 0.0001.  The earlier variant takes the take-profit distance as ATR
  times the stop multiplier \<open>atr_mult\<close> times \<open>reward_ratio\<close>, with the same
  stop-loss and trailing stop rule.  In both variants the row records these levels.
\<close>

theorem fresh_entry_levels:
  "(trade_type (fst (step p s r)) = LONG \<longleftrightarrow>
      position s = None \<and> long_signal p r \<and> atr r \<noteq> None)
   \<and> (trade_type (fst (step p s r)) = LONG \<and> atr r = Some a0
        \<and> a = (if a0 = 0 then 0.0001 else a0) \<longrightarrow>
        step p s r =
          (\<lparr>trade_type = LONG, SL = Some (close r - a * atr_mult_sl p),
             TP = Some (close r + a * atr_mult_tp p), TSL = Some (close r - a * atr_mult_sl p)\<rparr>,
           \<lparr>position = Some PosLong, entry_price = Some (close r),
             tsl = Some (close r - a * atr_mult_sl p), sl = Some (close r - a * atr_mult_sl p),
             tp = Some (close r + a * atr_mult_tp p)\<rparr>))
   \<and> (trade_type (fst (step p s r)) = SHORT \<longleftrightarrow>
      position s = None \<and> short_signal p r \<and> atr r \<noteq> None)
   \<and> (trade_type (fst (step p s r)) = SHORT \<and> atr r = Some a0
        \<and> a = (if a0 = 0 then 0.0001 else a0) \<longrightarrow>
        step p s r =
          (\<lparr>trade_type = SHORT, SL = Some (close r + a * atr_mult_sl p),
             TP = Some (close r - a * atr_mult_tp p), TSL = Some (close r + a * atr_mult_sl p)\<rparr>,
           \<lparr>position = Some PosShort, entry_price = Some (close r),
             tsl = Some (close r + a * atr_mult_sl p), sl = Some (close r + a * atr_mult_sl p),
             tp = Some (close r - a * atr_mult_tp p)\<rparr>))
   \<and> (trade_type (fst (step_1 s1 r1)) = LONG \<longleftrightarrow> position_1 s1 = None \<and> long_signal_1 r1)
   \<and> (trade_type (fst (step_1 s1 r1)) = LONG \<longrightarrow>
        step_1 s1 r1 =
          (\<lparr>trade_type = LONG, SL = nsub (close_1 r1) (nmul (atr_1 r1) (Some atr_mult)),
             TP = nadd (close_1 r1) (nmul (nmul (atr_1 r1) (Some atr_mult)) (Some reward_ratio)),
             TSL = nsub (close_1 r1) (nmul (atr_1 r1) (Some atr_mult))\<rparr>,
           \<lparr>position_1 = Some PosLong,
             tsl_1 = nsub (close_1 r1) (nmul (atr_1 r1) (Some atr_mult)),
             sl_1 = nsub (close_1 r1) (nmul (atr_1 r1) (Some atr_mult))\<rparr>))
   \<and> (trade_type (fst (step_1 s1 r1)) = SHORT \<longleftrightarrow> position_1 s1 = None \<and> short_signal_1 r1)
   \<and> (trade_type (fst (step_1 s1 r1)) = SHORT \<longrightarrow>
        step_1 s1 r1 =
          (\<lparr>trade_type = SHORT, SL = nadd (close_1 r1) (nmul (atr_1 r1) (Some atr_mult)),
             TP = nsub (close_1 r1) (nmul (nmul (atr_1 r1) (Some atr_mult)) (Some reward_ratio)),
             TSL = nadd (close_1 r1) (nmul (atr_1 r1) (Some atr_mult))\<rparr>,
           \<lparr>position_1 = Some PosShort,
             tsl_1 = nadd (close_1 r1) (nmul (atr_1 r1) (Some atr_mult)),
             sl_1 = nadd (close_1 r1) (nmul (atr_1 r1) (Some atr_mult))\<rparr>))"
proof -
  have l_iff: "trade_type (fst (step p s r)) = LONG \<longleftrightarrow>
      position s = None \<and> long_signal p r \<and> atr r \<noteq> None"
    using long_signal_not_null[of p r] essential_null_atr[of r] by (auto simp: step_long_iff)
  have s_iff: "trade_type (fst (step p s r)) = SHORT \<longleftrightarrow>
      position s = None \<and> short_signal p r \<and> atr r \<noteq> None"
    using short_signal_not_null[of p r] essential_null_atr[of r] by (auto simp: step_short_iff)
  have l: "step p s r =
          (\<lparr>trade_type = LONG, SL = Some (close r - a * atr_mult_sl p),
             TP = Some (close r + a * atr_mult_tp p), TSL = Some (close r - a * atr_mult_sl p)\<rparr>,
           \<lparr>position = Some PosLong, entry_price = Some (close r),
             tsl = Some (close r - a * atr_mult_sl p), sl = Some (close r - a * atr_mult_sl p),
             tp = Some (close r + a * atr_mult_tp p)\<rparr>)"
    if h: "trade_type (fst (step p s r)) = LONG \<and> atr r = Some a0
        \<and> a = (if a0 = 0 then 0.0001 else a0)"
  proof -
    from h have f: "\<not> essential_null r" "position s = None" "long_signal p r"
      by (simp_all add: step_long_iff)
    from h have o: "open_long p r =
       \<lparr>position = Some PosLong, entry_price = Some (close r),
        tsl = Some (close r - a * atr_mult_sl p), sl = Some (close r - a * atr_mult_sl p),
        tp = Some (close r + a * atr_mult_tp p)\<rparr>"
      using open_long_Some[of r a0 a p] by simp
    show ?thesis
      using f by (simp add: step_flat o levels_of_def)
  qed
  have sh: "step p s r =
          (\<lparr>trade_type = SHORT, SL = Some (close r + a * atr_mult_sl p),
             TP = Some (close r - a * atr_mult_tp p), TSL = Some (close r + a * atr_mult_sl p)\<rparr>,
           \<lparr>position = Some PosShort, entry_price = Some (close r),
             tsl = Some (close r + a * atr_mult_sl p), sl = Some (close r + a * atr_mult_sl p),
             tp = Some (close r - a * atr_mult_tp p)\<rparr>)"
    if h: "trade_type (fst (step p s r)) = SHORT \<and> atr r = Some a0
        \<and> a = (if a0 = 0 then 0.0001 else a0)"
  proof -
    from h have f: "\<not> essential_null r" "position s = None" "short_signal p r"
      by (simp_all add: step_short_iff)
    then have nl: "\<not> long_signal p r"
      using signals_exclusive by blast
    from h have o: "open_short p r =
       \<lparr>position = Some PosShort, entry_price = Some (close r),
        tsl = Some (close r + a * atr_mult_sl p), sl = Some (close r + a * atr_mult_sl p),
        tp = Some (close r - a * atr_mult_tp p)\<rparr>"
      using open_short_Some[of r a0 a p] by simp
    show ?thesis
      using f nl by (simp add: step_flat o levels_of_def)
  qed
  have l1: "step_1 s1 r1 =
          (\<lparr>trade_type = LONG, SL = nsub (close_1 r1) (nmul (atr_1 r1) (Some atr_mult)),
             TP = nadd (close_1 r1) (nmul (nmul (atr_1 r1) (Some atr_mult)) (Some reward_ratio)),
             TSL = nsub (close_1 r1) (nmul (atr_1 r1) (Some atr_mult))\<rparr>,
           \<lparr>position_1 = Some PosLong,
             tsl_1 = nsub (close_1 r1) (nmul (atr_1 r1) (Some atr_mult)),
             sl_1 = nsub (close_1 r1) (nmul (atr_1 r1) (Some atr_mult))\<rparr>)"
    if "trade_type (fst (step_1 s1 r1)) = LONG"
    using that by (simp add: step_1_long_iff step_1_enter_long enter_long_1_def Let_def)
  have s1: "step_1 s1 r1 =
          (\<lparr>trade_type = SHORT, SL = nadd (close_1 r1) (nmul (atr_1 r1) (Some atr_mult)),
             TP = nsub (close_1 r1) (nmul (nmul (atr_1 r1) (Some atr_mult)) (Some reward_ratio)),
             TSL = nadd (close_1 r1) (nmul (atr_1 r1) (Some atr_mult))\<rparr>,
           \<lparr>position_1 = Some PosShort,
             tsl_1 = nadd (close_1 r1) (nmul (atr_1 r1) (Some atr_mult)),
             sl_1 = nadd (close_1 r1) (nmul (atr_1 r1) (Some atr_mult))\<rparr>)"
    if "trade_type (fst (step_1 s1 r1)) = SHORT"
  proof -
    from that have f: "position_1 s1 = None" "short_signal_1 r1"
      by (simp_all add: step_1_short_iff)
    then have "\<not> long_signal_1 r1"
      using signals_exclusive_1 by blast
    then show ?thesis
      using f by (simp add: step_1_enter_short enter_short_1_def Let_def)
  qed
  show ?thesis
    using l_iff s_iff l sh l1 s1 step_1_long_iff[of s1 r1] step_1_short_iff[of s1 r1]
    by blast
qed

theorem fresh_entry_levels_witness:
  "step default_params init_state
     \<lparr>close = 100, high = 101, low = 99, ema_50 = Some 101, ema_200 = Some 100,
       vwap = Some 99, bb_lower = Some 95, bb_width = Some 0.05, adx = Some 30,
       plus_di = Some 25, minus_di = Some 10, rsi = Some 60, atr = Some 2\<rparr>
     = (\<lparr>trade_type = LONG, SL = Some 95, TP = Some 106, TSL = Some 95\<rparr>,
        \<lparr>position = Some PosLong, entry_price = Some 100, tsl = Some 95, sl = Some 95,
          tp = Some 106\<rparr>)
   \<and> step_1 init_state_1
        \<lparr>close_1 = Some 100, atr_1 = Some 2, bb_width_1 = Some 0.05, rsi_1 = Some 50,
          ema_50_1 = Some 99, ema_200_1 = Some 98, vwap_1 = Some 97\<rparr>
     = (\<lparr>trade_type = LONG, SL = Some 97, TP = Some 106, TSL = Some 97\<rparr>,
        \<lparr>position_1 = Some PosLong, tsl_1 = Some 97, sl_1 = Some 97\<rparr>)"
  using fresh_entry_levels
    [where p = default_params and s = init_state and ?a0.0 = 2 and a = 2
       and r = "\<lparr>close = 100, high = 101, low = 99, ema_50 = Some 101, ema_200 = Some 100,
                 vwap = Some 99, bb_lower = Some 95, bb_width = Some 0.05, adx = Some 30,
                 plus_di = Some 25, minus_di = Some 10, rsi = Some 60, atr = Some 2\<rparr>"
       and ?s1.0 = init_state_1
       and ?r1.0 = "\<lparr>close_1 = Some 100, atr_1 = Some 2, bb_width_1 = Some 0.05,
                    rsi_1 = Some 50, ema_50_1 = Some 99, ema_200_1 = Some 98,
                    vwap_1 = Some 97\<rparr>"]
  by (simp add: init_state_def init_state_1_def default_params_def long_signal_def
      long_signal_1_def ngt_def nge_def min_bb_width_1_def atr_mult_def reward_ratio_def)

text \<open>
  An entry of the later variant at close 100 with ATR 2: the stop distance is 2 times 2.5,
  the take-profit is 106, that is 100 plus 2 times 3.0, and not 100 plus the stop distance
  times a reward multiple, whether that is read as \<open>atr_mult_tp\<close> or as the
  \<open>reward_ratio\<close> of the earlier variant.
\<close>

theorem take_profit_formula_counterexample:
  "tp (snd (step default_params init_state
       \<lparr>close = 100, high = 101, low = 99, ema_50 = Some 101, ema_200 = Some 100,
         vwap = Some 99, bb_lower = Some 95, bb_width = Some 0.05, adx = Some 30,
         plus_di = Some 25, minus_di = Some 10, rsi = Some 60, atr = Some 2\<rparr>)) = Some 106
   \<and> (106 :: real) \<noteq> 100 + 2 * atr_mult_sl default_params * atr_mult_tp default_params
   \<and> (106 :: real) \<noteq> 100 + 2 * atr_mult_sl default_params * reward_ratio"
  by (simp add: step_def essential_null_def exit_triggered_def exit_branch_def init_state_def
      ratchet_def execute_trades_def long_signal_def default_params_def ngt_def nge_def
      open_long_def guard_atr_def levels_of_def reward_ratio_def Let_def)

end
